theory Spec2Isabelle
  imports Complex_Main
begin

section \<open>Values, errors and policies\<close>

text \<open>
  The module \<^verbatim>\<open>qoc/core/lindbladdiscrete.py\<close> evolves a batch of density matrices under
  the Lindblad master equation and wraps that evolution for a gradient-based optimiser.
  Python floats are modelled as \<^typ>\<open>real\<close> and complex array entries as
  \<^typ>\<open>complex\<close>: the arithmetic below is exact, rounding is not modelled.
  A numpy array of the shapes the module handles is a nested list: a control vector, a
  matrix, a batch of matrices (shape \<open>D \<times> H \<times> H\<close>), a control array (one row per
  control step).
\<close>

type_synonym vector = "complex list"
type_synonym matrix = "complex list list"
type_synonym densities = "complex list list list"
type_synonym controls = "complex list list"

text \<open>Every exception the modelled code can raise is a value of this type.\<close>

datatype error =
    ValueError
  | IndexError
  | TypeError
  | UnboundLocalError
  | AttributeError
  | ZeroDivisionError

text \<open>
  Modelled from the spec: the enumeration \<^verbatim>\<open>InterpolationPolicy\<close> of \<^verbatim>\<open>qoc.models\<close> is not
  among the sources. The spec names the member \<^verbatim>\<open>LINEAR\<close> and says every other policy is
  unsupported; the other members are kept by name.
\<close>

datatype InterpolationPolicy = LINEAR | OTHER_POLICY string

text \<open>
  Modelled from the spec: \<^verbatim>\<open>OperationPolicy\<close> of \<^verbatim>\<open>qoc.models\<close> (CPU, GPU, sparse).
\<close>

datatype OperationPolicy = CPU | GPU | SPARSE

subsection \<open>Array arithmetic\<close>

text \<open>
  Elementwise numpy arithmetic on arrays of one shape. Inside one integration step every
  operand has the shape of the density batch.
\<close>

definition vec_add :: "vector \<Rightarrow> vector \<Rightarrow> vector" where
  "vec_add x y = map2 (+) x y"

definition vec_sub :: "vector \<Rightarrow> vector \<Rightarrow> vector" where
  "vec_sub x y = map2 (-) x y"

definition vec_scale :: "real \<Rightarrow> vector \<Rightarrow> vector" where
  "vec_scale r x = map (\<lambda>z. complex_of_real r * z) x"

definition mat_add :: "matrix \<Rightarrow> matrix \<Rightarrow> matrix" where
  "mat_add a b = map2 vec_add a b"

definition mat_sub :: "matrix \<Rightarrow> matrix \<Rightarrow> matrix" where
  "mat_sub a b = map2 vec_sub a b"

definition mat_cscale :: "complex \<Rightarrow> matrix \<Rightarrow> matrix" where
  "mat_cscale c a = map (map (\<lambda>z. c * z)) a"

definition nd_add :: "densities \<Rightarrow> densities \<Rightarrow> densities" where
  "nd_add x y = map2 mat_add x y"

definition nd_scale :: "real \<Rightarrow> densities \<Rightarrow> densities" where
  "nd_scale r x = map (map (vec_scale r)) x"

text \<open>
  Python indexing \<^verbatim>\<open>xs[i]\<close> on the first axis: a negative index counts from the end, an
  index out of range raises \<^verbatim>\<open>IndexError\<close>.
\<close>

definition py_index :: "'a list \<Rightarrow> int \<Rightarrow> error + 'a" where
  "py_index xs i =
     (if 0 \<le> i \<and> i < int (length xs) then Inr (xs ! nat i)
      else if i < 0 \<and> - int (length xs) \<le> i then Inr (xs ! nat (int (length xs) + i))
      else Inl IndexError)"

section \<open>Collaborators of the integration step\<close>

text \<open>
  Modelled from the spec: \<^verbatim>\<open>interpolate_linear\<close> of \<^verbatim>\<open>qoc.models\<close> is not among the sources.
  The spec (section 4.2): for left and right control sets \<open>c_L\<close>, \<open>c_R\<close> defined at times
  \<open>t_L\<close>, \<open>t_R\<close> the output at a time \<open>t\<close> strictly between them is
  \<open>c_L + (t - t_L) / (t_R - t_L) \<sqdot> (c_R - c_L)\<close>. The call site passes
  \<open>(t_L, t_R, t, c_L, c_R)\<close> in this order.
\<close>

definition interpolate_linear :: "real \<Rightarrow> real \<Rightarrow> real \<Rightarrow> vector \<Rightarrow> vector \<Rightarrow> vector" where
  "interpolate_linear x1 x2 x3 y1 y2 =
     vec_add y1 (vec_scale ((x3 - x1) / (x2 - x1)) (vec_sub y2 y1))"

text \<open>
  Modelled from the spec: \<^verbatim>\<open>get_lindbladian\<close> of \<^verbatim>\<open>qoc.models\<close> is not among the sources.
  The spec (section 4.1): for each density \<open>\<rho>\<close> of the batch the output is
  \<open>-i[H, \<rho>] + \<Sum>\<^sub>k g\<^sub>k (L\<^sub>k \<rho> L\<^sub>k\<^sup>\<dagger> - \<onehalf>{L\<^sub>k\<^sup>\<dagger> L\<^sub>k, \<rho>})\<close>, with the commutator term omitted
  when the Hamiltonian is absent and the sum empty when there is no dissipation data; if
  both are absent the result is the zero matrix. Matrices are square of size \<open>H \<ge> 1\<close>.
\<close>

definition zeros_like :: "matrix \<Rightarrow> matrix" where
  "zeros_like a = map (map (\<lambda>_. 0)) a"

definition mat_mul :: "matrix \<Rightarrow> matrix \<Rightarrow> matrix" where
  "mat_mul a b = map (\<lambda>row. map (\<lambda>col. sum_list (map2 (*) row col)) (transpose b)) a"

definition dagger :: "matrix \<Rightarrow> matrix" where
  "dagger a = map (map cnj) (transpose a)"

definition commutator :: "matrix \<Rightarrow> matrix \<Rightarrow> matrix" where
  "commutator a b = mat_sub (mat_mul a b) (mat_mul b a)"

definition dissipator :: "real \<Rightarrow> matrix \<Rightarrow> matrix \<Rightarrow> matrix" where
  "dissipator g l rho =
     mat_cscale (complex_of_real g)
       (mat_sub (mat_mul (mat_mul l rho) (dagger l))
          (mat_cscale (1 / 2)
             (mat_add (mat_mul (mat_mul (dagger l) l) rho)
                      (mat_mul rho (mat_mul (dagger l) l)))))"

definition lindbladian :: "real list option \<Rightarrow> matrix option \<Rightarrow> matrix list option \<Rightarrow> matrix \<Rightarrow> matrix" where
  "lindbladian g h l rho =
     mat_add
       (case h of
          None \<Rightarrow> zeros_like rho
        | Some hm \<Rightarrow> mat_cscale (- \<i>) (commutator hm rho))
       (case (g, l) of
          (Some gs, Some ls) \<Rightarrow>
            foldl mat_add (zeros_like rho) (map2 (\<lambda>gk lk. dissipator gk lk rho) gs ls)
        | _ \<Rightarrow> zeros_like rho)"

definition get_lindbladian ::
  "densities \<Rightarrow> real list option \<Rightarrow> matrix option \<Rightarrow> matrix list option \<Rightarrow> OperationPolicy \<Rightarrow> densities" where
  "get_lindbladian densities g h l operation_policy = map (lindbladian g h l) densities"

section \<open>The integration step\<close>

text \<open>
  Lines 357 to 375 of \<^verbatim>\<open>_evolve_step_lindblad_discrete\<close>: the four control vectors of one
  step. Without a control array all four are \<^verbatim>\<open>None\<close>. With one, the bracketing pair is
  read first (an index out of range raises), then the policy is tested.
\<close>

definition step_controls ::
  "bool \<Rightarrow> int \<Rightarrow> controls option \<Rightarrow> InterpolationPolicy \<Rightarrow> real \<Rightarrow> real \<Rightarrow> real \<Rightarrow>
   error + (vector option \<times> vector option \<times> vector option \<times> vector option)" where
  "step_controls control_sentinel control_step controls interpolation_policy t1 t2 t4 =
     (case controls of
        None \<Rightarrow> Inr (None, None, None, None)
      | Some cs \<Rightarrow>
          (case (if control_sentinel
                 then (case py_index cs (control_step - 1) of
                         Inl e \<Rightarrow> Inl e
                       | Inr control_left \<Rightarrow>
                           (case py_index cs control_step of
                              Inl e \<Rightarrow> Inl e
                            | Inr control_right \<Rightarrow> Inr (control_left, control_right)))
                 else (case py_index cs control_step of
                         Inl e \<Rightarrow> Inl e
                       | Inr control_left \<Rightarrow>
                           (case py_index cs (control_step + 1) of
                              Inl e \<Rightarrow> Inl e
                            | Inr control_right \<Rightarrow> Inr (control_left, control_right)))) of
             Inl e \<Rightarrow> Inl e
           | Inr (control_left, control_right) \<Rightarrow>
               if interpolation_policy = LINEAR
               then (let c1 = control_left;
                         c2 = interpolate_linear t1 t4 t2 control_left control_right;
                         c3 = c2;
                         c4 = control_right
                     in Inr (Some c1, Some c2, Some c3, Some c4))
               else Inl ValueError))"

text \<open>
  \<^verbatim>\<open>_evolve_step_lindblad_discrete\<close>: one Runge-Kutta step of fourth order. The Hamiltonian
  function takes the control vector (or \<^verbatim>\<open>None\<close>) and the time; the Lindblad specification
  takes the time and returns the dissipation rates and the operators.
\<close>

definition evolve_step_lindblad_discrete ::
  "densities \<Rightarrow> real \<Rightarrow> real \<Rightarrow> bool \<Rightarrow> int \<Rightarrow> controls option \<Rightarrow>
   (vector option \<Rightarrow> real \<Rightarrow> matrix) option \<Rightarrow> InterpolationPolicy \<Rightarrow>
   (real \<Rightarrow> real list \<times> matrix list) option \<Rightarrow> OperationPolicy \<Rightarrow> error + densities" where
  "evolve_step_lindblad_discrete densities dt time control_sentinel control_step controls
      hamiltonian interpolation_policy lindblad_data operation_policy =
     (let t1 = time;
          t2 = time + 0.5 * dt;
          t3 = t2;
          t4 = time + dt
      in case step_controls control_sentinel control_step controls interpolation_policy t1 t2 t4 of
           Inl e \<Rightarrow> Inl e
         | Inr (c1, c2, c3, c4) \<Rightarrow>
             (let (h1, h2, h3, h4) =
                    (case hamiltonian of
                       None \<Rightarrow> (None, None, None, None)
                     | Some hf \<Rightarrow>
                         (let h1 = hf c1 t1;
                              h2 = hf c2 t2;
                              h3 = h2;
                              h4 = hf c4 t4
                          in (Some h1, Some h2, Some h3, Some h4)));
                  ((g1, l1), (g2, l2), (g3, l3), (g4, l4)) =
                    (case lindblad_data of
                       None \<Rightarrow> ((None, None), (None, None), (None, None), (None, None))
                     | Some ld \<Rightarrow>
                         (let (g1, l1) = ld t1;
                              (g2, l2) = ld t2;
                              (g3, l3) = ld t3;
                              (g4, l4) = ld t4
                          in ((Some g1, Some l1), (Some g2, Some l2),
                              (Some g3, Some l3), (Some g4, Some l4))));
                  k1 = nd_scale dt (get_lindbladian densities g1 h1 l1 operation_policy);
                  k2 = nd_scale dt (get_lindbladian (nd_add densities (nd_scale 0.5 k1))
                                      g2 h2 l2 operation_policy);
                  k3 = nd_scale dt (get_lindbladian (nd_add densities (nd_scale 0.5 k2))
                                      g3 h3 l3 operation_policy);
                  k4 = nd_scale dt (get_lindbladian (nd_add densities k3)
                                      g4 h4 l4 operation_policy)
              in Inr (nd_add densities
                        (nd_scale (1 / 6)
                           (nd_add (nd_add (nd_add k1 (nd_scale 2 k2)) (nd_scale 2 k3)) k4)))))"

section \<open>Cost collaborators and the program state\<close>

text \<open>
  A cost object, as the driver sees it: the names of the parameters of its \<^verbatim>\<open>cost\<close> method
  (without \<^verbatim>\<open>self\<close>) and the method's body. The body can raise.
\<close>

record cost =
  cost_params :: "string list"
  cost_body :: "controls option \<Rightarrow> densities \<Rightarrow> int \<Rightarrow> OperationPolicy \<Rightarrow> error + real"

text \<open>
  The call \<^verbatim>\<open>cost.cost(controls, densities, system_step, operation_policy=operation_policy)\<close>
  of the driver. Python binds three positional arguments and the keyword
  \<^verbatim>\<open>operation_policy\<close>: the method needs at least three parameters, and one of the later
  ones must carry that name, or the call raises \<^verbatim>\<open>TypeError\<close> before the body runs.
  (Parameters after the third are taken to have defaults.)
\<close>

definition call_cost ::
  "cost \<Rightarrow> controls option \<Rightarrow> densities \<Rightarrow> int \<Rightarrow> OperationPolicy \<Rightarrow> error + real" where
  "call_cost c controls densities system_step operation_policy =
     (if 3 \<le> length (cost_params c) \<and> ''operation_policy'' \<in> set (drop 3 (cost_params c))
      then cost_body c controls densities system_step operation_policy
      else Inl TypeError)"

text \<open>
  Modelled from the spec: the classes \<^verbatim>\<open>EvolveLindbladDiscreteState\<close> and
  \<^verbatim>\<open>GrapeLindbladDiscreteState\<close> of \<^verbatim>\<open>qoc.models\<close> are not among the sources. The record has
  the fields the module reads from \<^verbatim>\<open>pstate\<close>; how the constructor derives them is not
  modelled.
\<close>

record pstate =
  ps_complex_controls :: bool
  ps_controls_shape :: "nat \<times> nat"
  ps_costs :: "cost list"
  ps_dt :: real
  ps_final_control_step :: int
  ps_final_system_step :: int
  ps_hamiltonian :: "(vector option \<Rightarrow> real \<Rightarrow> matrix) option"
  ps_initial_densities :: densities
  ps_interpolation_policy :: InterpolationPolicy
  ps_lindblad_data :: "(real \<Rightarrow> real list \<times> matrix list) option"
  ps_max_control_norms :: "real list"
  ps_operation_policy :: OperationPolicy
  ps_step_costs :: "cost list"
  ps_system_step_multiplier :: int

text \<open>
  A density batch as a Python value: a plain array, or an array inside the box the
  differentiation engine puts around every value computed from a traced input.
\<close>

datatype pyarray = Ndarray densities | Box densities

text \<open>
  The reporter (\<^verbatim>\<open>Dummy()\<close> in the optimisation, \<^verbatim>\<open>EvolveLindbladResult()\<close> in the plain
  evolution): an attribute that was never assigned is \<open>None\<close>.
\<close>

record reporter =
  rep_final_densities :: "pyarray option"
  rep_total_error :: "real option"
  rep_iteration :: int

section \<open>The evolution driver\<close>

text \<open>
  The driver's list of cost invocations is not a variable of the program: the model keeps
  it to state which collaborator was invoked, at which system step, on which batch, and
  what it returned.
\<close>

datatype cost_list = COSTS | STEP_COSTS

record invocation =
  inv_list :: cost_list
  inv_index :: nat
  inv_step :: int
  inv_densities :: densities
  inv_error :: real

record loop_state =
  ls_densities :: densities
  ls_total_error :: real
  ls_reporter :: reporter
  ls_invocations :: "invocation list"

text \<open>
  The loops \<^verbatim>\<open>for i, cost in enumerate(costs)\<close> and
  \<^verbatim>\<open>for i, step_cost in enumerate(step_costs)\<close>: each cost is called on the current batch and
  its result added to the total; a cost that raises ends the evaluation.
\<close>

fun run_costs ::
  "cost_list \<Rightarrow> nat \<Rightarrow> cost list \<Rightarrow> controls option \<Rightarrow> densities \<Rightarrow> int \<Rightarrow> OperationPolicy \<Rightarrow>
   real \<times> invocation list \<Rightarrow> error + real \<times> invocation list" where
  "run_costs which i [] controls densities system_step operation_policy acc = Inr acc"
| "run_costs which i (c # cs) controls densities system_step operation_policy (total_error, invocations) =
     (case call_cost c controls densities system_step operation_policy of
        Inl e \<Rightarrow> Inl e
      | Inr err \<Rightarrow>
          run_costs which (Suc i) cs controls densities system_step operation_policy
            (total_error + err,
             invocations @ [\<lparr>inv_list = which, inv_index = i, inv_step = system_step,
                      inv_densities = densities, inv_error = err\<rparr>]))"

text \<open>
  Lines 276 to 287 of \<^verbatim>\<open>_evaluate_lindblad_discrete\<close>: the control step, the two flags and
  the time of a system step, and the call of the integrator. \<^verbatim>\<open>divmod\<close> by zero raises.
\<close>

definition system_step_evolve ::
  "controls option \<Rightarrow> pstate \<Rightarrow> int \<Rightarrow> densities \<Rightarrow> error + densities" where
  "system_step_evolve controls pstate system_step densities =
     (if ps_system_step_multiplier pstate = 0 then Inl ZeroDivisionError
      else
        (let control_step = system_step div ps_system_step_multiplier pstate;
             is_final_control_step = (control_step = ps_final_control_step pstate);
             time = real_of_int system_step * ps_dt pstate
         in evolve_step_lindblad_discrete densities (ps_dt pstate) time
              is_final_control_step control_step controls (ps_hamiltonian pstate)
              (ps_interpolation_policy pstate) (ps_lindblad_data pstate)
              (ps_operation_policy pstate)))"

text \<open>The body of the loop over the system steps.\<close>

definition system_step_body ::
  "controls option \<Rightarrow> pstate \<Rightarrow> int \<Rightarrow> loop_state \<Rightarrow> error + loop_state" where
  "system_step_body controls pstate system_step st =
     (case system_step_evolve controls pstate system_step (ls_densities st) of
        Inl e \<Rightarrow> Inl e
      | Inr densities \<Rightarrow>
          (let is_final_system_step = (system_step = ps_final_system_step pstate)
           in if is_final_system_step
              then (case run_costs COSTS 0 (ps_costs pstate) controls densities system_step
                           (ps_operation_policy pstate)
                           (ls_total_error st, ls_invocations st) of
                      Inl e \<Rightarrow> Inl e
                    | Inr (total_error, invocations) \<Rightarrow>
                        Inr \<lparr>ls_densities = densities, ls_total_error = total_error,
                             ls_reporter = (ls_reporter st)
                               \<lparr>rep_final_densities := Some (Ndarray densities),
                                rep_total_error := Some total_error\<rparr>,
                             ls_invocations = invocations\<rparr>)
              else (case run_costs STEP_COSTS 0 (ps_step_costs pstate) controls densities
                           system_step (ps_operation_policy pstate)
                           (ls_total_error st, ls_invocations st) of
                      Inl e \<Rightarrow> Inl e
                    | Inr (total_error, invocations) \<Rightarrow>
                        Inr \<lparr>ls_densities = densities, ls_total_error = total_error,
                             ls_reporter = ls_reporter st, ls_invocations = invocations\<rparr>)))"

fun evaluate_loop ::
  "controls option \<Rightarrow> pstate \<Rightarrow> int list \<Rightarrow> loop_state \<Rightarrow> error + loop_state" where
  "evaluate_loop controls pstate [] st = Inr st"
| "evaluate_loop controls pstate (system_step # rest) st =
     (case system_step_body controls pstate system_step st of
        Inl e \<Rightarrow> Inl e
      | Inr st' \<Rightarrow> evaluate_loop controls pstate rest st')"

text \<open>
  The whole loop \<^verbatim>\<open>for system_step in range(final_system_step + 1)\<close>, from the initial
  densities and a total error of zero.
\<close>

definition initial_loop_state :: "pstate \<Rightarrow> reporter \<Rightarrow> loop_state" where
  "initial_loop_state pstate reporter =
     \<lparr>ls_densities = ps_initial_densities pstate, ls_total_error = 0,
      ls_reporter = reporter, ls_invocations = []\<rparr>"

definition evaluate_run :: "controls option \<Rightarrow> pstate \<Rightarrow> reporter \<Rightarrow> error + loop_state" where
  "evaluate_run controls pstate reporter =
     evaluate_loop controls pstate [0..ps_final_system_step pstate]
       (initial_loop_state pstate reporter)"

text \<open>
  \<^verbatim>\<open>_evaluate_lindblad_discrete\<close>: returns the total error; the reporter is returned with it,
  as the caller sees its attributes afterwards.
\<close>

definition evaluate_lindblad_discrete ::
  "controls option \<Rightarrow> pstate \<Rightarrow> reporter \<Rightarrow> error + real \<times> reporter" where
  "evaluate_lindblad_discrete controls pstate reporter =
     (case evaluate_run controls pstate reporter of
        Inl e \<Rightarrow> Inl e
      | Inr st \<Rightarrow> Inr (ls_total_error st, ls_reporter st))"

text \<open>
  \<^verbatim>\<open>evolve_lindblad_discrete\<close>, from the program state its first lines construct: the result
  object is returned only when the evaluation returns.
\<close>

definition EvolveLindbladResult :: reporter where
  "EvolveLindbladResult =
     \<lparr>rep_final_densities = None, rep_total_error = None, rep_iteration = 0\<rparr>"

definition evolve_lindblad_discrete :: "controls option \<Rightarrow> pstate \<Rightarrow> error + reporter" where
  "evolve_lindblad_discrete controls pstate =
     (case evaluate_lindblad_discrete controls pstate EvolveLindbladResult of
        Inl e \<Rightarrow> Inl e
      | Inr (_, result) \<Rightarrow> Inr result)"







section \<open>The control representation adapter\<close>

text \<open>
  Modelled from the spec: \<^verbatim>\<open>strip_controls\<close> and \<^verbatim>\<open>slap_controls\<close> of \<^verbatim>\<open>qoc.core.common\<close> are
  not among the sources (only their call sites are). The spec (section 4.5):
  \<^verbatim>\<open>strip(structured) -> flat\<close> is the identity reshape to a flat vector when the controls are
  real, and emits a flat real vector of double length, the real components followed by
  the imaginary components, when they are complex; \<^verbatim>\<open>slap(flat, target_shape) -> structured\<close>
  is the exact inverse. A structured array holds complex entries; a real one has
  imaginary parts zero. A reshape to a shape of another size raises.
\<close>

definition strip_controls :: "bool \<Rightarrow> controls \<Rightarrow> real list" where
  "strip_controls complex_controls cs =
     (let flat = concat cs
      in if complex_controls then map Re flat @ map Im flat else map Re flat)"

definition reshape :: "'a list \<Rightarrow> nat \<times> nat \<Rightarrow> error + 'a list list" where
  "reshape flat shape =
     (case shape of
        (n, m) \<Rightarrow>
          if length flat = n * m
          then Inr (map (\<lambda>i. take m (drop (i * m) flat)) [0..<n])
          else Inl ValueError)"

definition slap_controls :: "bool \<Rightarrow> real list \<Rightarrow> nat \<times> nat \<Rightarrow> error + controls" where
  "slap_controls complex_controls flat controls_shape =
     (if complex_controls
      then (if even (length flat)
            then (let half = length flat div 2
                  in reshape (map2 Complex (take half flat) (drop half flat)) controls_shape)
            else Inl ValueError)
      else reshape (map complex_of_real flat) controls_shape)"

text \<open>
  Modelled from the spec: \<^verbatim>\<open>conjugate\<close> of \<^verbatim>\<open>qoc.standard\<close> is not among the sources; the spec
  (section 4.7) has the raw gradient conjugated, entry by entry.
\<close>

definition conjugate :: "controls \<Rightarrow> controls" where
  "conjugate grads = map (map cnj) grads"

section \<open>The optimisation wrappers\<close>

text \<open>
  Modelled from the spec: \<^verbatim>\<open>GrapeLindbladResult\<close> of \<^verbatim>\<open>qoc.models\<close> is not among the sources.
  The spec (section 3): \<^verbatim>\<open>best_total_error\<close> starts at plus infinity; the other three fields
  hold nothing until the first update.
\<close>

datatype pyfloat = Finite real | PosInf

record result =
  best_controls :: "controls option"
  best_final_densities :: "densities option"
  best_iteration :: "int option"
  best_total_error :: pyfloat

definition GrapeLindbladResult :: result where
  "GrapeLindbladResult =
     \<lparr>best_controls = None, best_final_densities = None, best_iteration = None,
      best_total_error = PosInf\<rparr>"

text \<open>The comparison \<^verbatim>\<open>total_error < result.best_total_error\<close>.\<close>

fun float_less :: "real \<Rightarrow> pyfloat \<Rightarrow> bool" where
  "float_less x (Finite y) = (x < y)"
| "float_less x PosInf = True"

text \<open>The order of the stored best values, infinity on top.\<close>

fun pyfloat_le :: "pyfloat \<Rightarrow> pyfloat \<Rightarrow> bool" where
  "pyfloat_le (Finite x) (Finite y) = (x \<le> y)"
| "pyfloat_le x PosInf = True"
| "pyfloat_le PosInf (Finite y) = False"

text \<open>
  The collaborators of the wrappers that are not among the sources, taken as parameters:
  \<^verbatim>\<open>clip_control_norms\<close> of \<^verbatim>\<open>qoc.core.common\<close> (it changes the structured controls in place;
  here it returns them), and \<^verbatim>\<open>ans_jacobian\<close> of \<^verbatim>\<open>qoc.standard\<close>, the differentiation
  capability: applied to the evaluation it returns the total error and the jacobian with
  respect to the controls, and leaves in the reporter what the traced forward pass
  recorded there. \<^verbatim>\<open>pstate.log_and_save\<close> only writes logs and files and has no part in the
  model beyond the evaluation of its arguments.
\<close>

record collaborators =
  clip_control_norms :: "real list \<Rightarrow> controls \<Rightarrow> controls"
  ans_jacobian ::
    "(controls option \<Rightarrow> pstate \<Rightarrow> reporter \<Rightarrow> error + real \<times> reporter) \<Rightarrow>
     controls \<Rightarrow> pstate \<Rightarrow> reporter \<Rightarrow> error + (real \<times> controls) \<times> reporter"

text \<open>
  \<^verbatim>\<open>_eld_wrap\<close>: the objective alone. It passes the optimiser's reporter to the evaluation.
\<close>

definition eld_wrap ::
  "collaborators \<Rightarrow> real list \<Rightarrow> pstate \<Rightarrow> reporter \<Rightarrow> result \<Rightarrow> error + real \<times> reporter \<times> result" where
  "eld_wrap env controls pstate reporter result =
     (case slap_controls (ps_complex_controls pstate) controls (ps_controls_shape pstate) of
        Inl e \<Rightarrow> Inl e
      | Inr controls \<Rightarrow>
          (let controls = clip_control_norms env (ps_max_control_norms pstate) controls
           in case evaluate_lindblad_discrete (Some controls) pstate reporter of
                Inl e \<Rightarrow> Inl e
              | Inr (total_error, reporter) \<Rightarrow> Inr (total_error, reporter, result)))"

text \<open>
  Lines 211 to 217 of \<^verbatim>\<open>_eldj_wrap\<close>: the structured, clipped controls, and the value and
  jacobian of the evaluation at them.
\<close>

definition eldj_evaluate ::
  "collaborators \<Rightarrow> real list \<Rightarrow> pstate \<Rightarrow> reporter \<Rightarrow>
   error + controls \<times> real \<times> controls \<times> reporter" where
  "eldj_evaluate env controls pstate reporter =
     (case slap_controls (ps_complex_controls pstate) controls (ps_controls_shape pstate) of
        Inl e \<Rightarrow> Inl e
      | Inr controls \<Rightarrow>
          (let controls = clip_control_norms env (ps_max_control_norms pstate) controls
           in case ans_jacobian env evaluate_lindblad_discrete controls pstate reporter of
                Inl e \<Rightarrow> Inl e
              | Inr ((total_error, grads), reporter) \<Rightarrow>
                  Inr (controls, total_error, grads, reporter)))"

text \<open>
  \<^verbatim>\<open>_eldj_wrap\<close>. The local variable \<^verbatim>\<open>final_densities\<close> is assigned only when the reporter's
  final densities are a box: \<open>None\<close> is the unassigned variable, and reading it raises
  \<^verbatim>\<open>UnboundLocalError\<close>. A reporter without the attribute raises \<^verbatim>\<open>AttributeError\<close>. An
  exception leaves the wrapper, the optimiser and \<^verbatim>\<open>grape_lindblad_discrete\<close>, so no result
  object is returned then.
\<close>

definition eldj_wrap ::
  "collaborators \<Rightarrow> real list \<Rightarrow> pstate \<Rightarrow> reporter \<Rightarrow> result \<Rightarrow>
   error + real list \<times> reporter \<times> result" where
  "eldj_wrap env controls pstate reporter result =
     (case eldj_evaluate env controls pstate reporter of
        Inl e \<Rightarrow> Inl e
      | Inr (controls, total_error, grads, reporter) \<Rightarrow>
          (let grads = (if ps_complex_controls pstate then conjugate grads else grads)
           in case rep_final_densities reporter of
                None \<Rightarrow> Inl AttributeError
              | Some recorded \<Rightarrow>
                  (let final_densities =
                         (case recorded of Box v \<Rightarrow> Some v | Ndarray v \<Rightarrow> None)
                   in case (if float_less total_error (best_total_error result)
                            then (case final_densities of
                                    None \<Rightarrow> Inl UnboundLocalError
                                  | Some v \<Rightarrow>
                                      Inr (result
                                        \<lparr>best_controls := Some controls,
                                         best_final_densities := Some v,
                                         best_iteration := Some (rep_iteration reporter),
                                         best_total_error := Finite total_error\<rparr>))
                            else Inr result) of
                        Inl e \<Rightarrow> Inl e
                      | Inr result \<Rightarrow>
                          (case final_densities of
                             None \<Rightarrow> Inl UnboundLocalError
                           | Some v \<Rightarrow>
                               (let reporter = reporter\<lparr>rep_iteration := rep_iteration reporter + 1\<rparr>;
                                    grads = strip_controls (ps_complex_controls pstate) grads
                                in Inr (grads, reporter, result))))))"

text \<open>
  Modelled from the spec: the optimiser collaborator (\<^verbatim>\<open>pstate.optimizer.run\<close>) is not among
  the sources. It calls the objective and the gradient function on its own schedule, at
  flat vectors of its choice: a run is the list of its requests.
\<close>

datatype request = OBJECTIVE "real list" | GRADIENT "real list"

text \<open>
  What one gradient evaluation of a run observed, and the result object after it. The
  run keeps these records beside the program's state, like the invocations of the
  driver: for a gradient request it reads the observed values off \<open>eldj_evaluate\<close> at the
  same arguments the wrapper was called with. The wrappers never change the result
  object on an objective request.
\<close>

record evaluation =
  ev_controls :: controls
  ev_total_error :: real
  ev_final_densities :: "pyarray option"
  ev_iteration :: int
  ev_result :: result

fun optimizer_run ::
  "collaborators \<Rightarrow> pstate \<Rightarrow> request list \<Rightarrow> reporter \<Rightarrow> result \<Rightarrow>
   error + evaluation list \<times> reporter \<times> result" where
  "optimizer_run env pstate [] reporter result = Inr ([], reporter, result)"
| "optimizer_run env pstate (OBJECTIVE x # rest) reporter result =
     (case eld_wrap env x pstate reporter result of
        Inl e \<Rightarrow> Inl e
      | Inr (_, reporter', result') \<Rightarrow> optimizer_run env pstate rest reporter' result')"
| "optimizer_run env pstate (GRADIENT x # rest) reporter result =
     (case eldj_wrap env x pstate reporter result of
        Inl e \<Rightarrow> Inl e
      | Inr (_, reporter', result') \<Rightarrow>
          (case eldj_evaluate env x pstate reporter of
             Inl e \<Rightarrow> Inl e
           | Inr (controls, total_error, _, traced) \<Rightarrow>
               (case optimizer_run env pstate rest reporter' result' of
                  Inl e \<Rightarrow> Inl e
                | Inr (evs, reporter'', result'') \<Rightarrow>
                    Inr (\<lparr>ev_controls = controls, ev_total_error = total_error,
                          ev_final_densities = rep_final_densities traced,
                          ev_iteration = rep_iteration traced,
                          ev_result = result'\<rparr> # evs,
                         reporter'', result''))))"

text \<open>
  \<^verbatim>\<open>grape_lindblad_discrete\<close>, from the program state its first lines construct: a fresh
  reporter with iteration zero, a fresh result, then the optimiser's run; the result is
  returned when the run returns.
\<close>

definition Dummy :: reporter where
  "Dummy = \<lparr>rep_final_densities = None, rep_total_error = None, rep_iteration = 0\<rparr>"

definition grape_lindblad_discrete ::
  "collaborators \<Rightarrow> pstate \<Rightarrow> request list \<Rightarrow> error + result" where
  "grape_lindblad_discrete env pstate requests =
     (case optimizer_run env pstate requests Dummy GrapeLindbladResult of
        Inl e \<Rightarrow> Inl e
      | Inr (_, _, result) \<Rightarrow> Inr result)"

section \<open>The cost \<^verbatim>\<open>TargetDensityInfidelity\<close>\<close>

text \<open>
  The numpy operations of \<^verbatim>\<open>TargetDensityInfidelity.cost\<close>, on arrays of up to three axes.
  \<^verbatim>\<open>matmul\<close> of two batches multiplies matrix by matrix (batches of different lengths
  raise; numpy's broadcasting of a batch of length one is not modelled). The index
  \<^verbatim>\<open>[:, 0, 0]\<close> keeps the first axis and takes entry \<open>(0, 0)\<close> of each matrix, which gives
  an array of one axis. \<^verbatim>\<open>trace\<close> with \<^verbatim>\<open>axis1=-1, axis2=-2\<close> sums the diagonal over the
  last two axes and raises \<^verbatim>\<open>ValueError\<close> on an array of fewer than two axes.
\<close>

datatype ndarray =
    Array0 complex
  | Array1 "complex list"
  | Array2 "complex list list"
  | Array3 "complex list list list"

definition np_matmul :: "densities \<Rightarrow> densities \<Rightarrow> error + densities" where
  "np_matmul a b = (if length a = length b then Inr (map2 mat_mul a b) else Inl ValueError)"

fun index_all_0_0 :: "densities \<Rightarrow> error + vector" where
  "index_all_0_0 [] = Inr []"
| "index_all_0_0 (m # ms) =
     (case py_index m 0 of
        Inl e \<Rightarrow> Inl e
      | Inr row \<Rightarrow>
          (case py_index row 0 of
             Inl e \<Rightarrow> Inl e
           | Inr z \<Rightarrow>
               (case index_all_0_0 ms of
                  Inl e \<Rightarrow> Inl e
                | Inr zs \<Rightarrow> Inr (z # zs))))"

definition mat_trace :: "matrix \<Rightarrow> complex" where
  "mat_trace m = sum_list (map (\<lambda>i. m ! i ! i) [0..<length m])"

fun np_trace :: "ndarray \<Rightarrow> error + ndarray" where
  "np_trace (Array0 z) = Inl ValueError"
| "np_trace (Array1 v) = Inl ValueError"
| "np_trace (Array2 m) = Inr (Array0 (mat_trace m))"
| "np_trace (Array3 b) = Inr (Array1 (map mat_trace b))"

fun np_elements :: "ndarray \<Rightarrow> complex list" where
  "np_elements (Array0 z) = [z]"
| "np_elements (Array1 v) = v"
| "np_elements (Array2 m) = concat m"
| "np_elements (Array3 b) = concat (concat b)"

text \<open>
  The fields of a \<^verbatim>\<open>TargetDensityInfidelity\<close> object and its constructor.
  Modelled from the spec: \<^verbatim>\<open>conjugate_transpose\<close> of \<^verbatim>\<open>qoc.standard.functions\<close> is not among
  the sources; it is the conjugate transpose of each matrix of the batch (the claim's
  \<open>T\<^sub>i\<^sup>\<dagger>\<close>).
\<close>

record TargetDensityInfidelity =
  tdi_cost_multiplier :: real
  tdi_density_count :: nat
  tdi_hilbert_size :: nat
  tdi_target_densities_dagger :: densities

definition conjugate_transpose :: "densities \<Rightarrow> densities" where
  "conjugate_transpose b = map dagger b"

definition TargetDensityInfidelity_init :: "densities \<Rightarrow> real \<Rightarrow> TargetDensityInfidelity" where
  "TargetDensityInfidelity_init target_densities cost_multiplier =
     \<lparr>tdi_cost_multiplier = cost_multiplier,
      tdi_density_count = length target_densities,
      tdi_hilbert_size = (case target_densities of [] \<Rightarrow> 0 | m # _ \<Rightarrow> length m),
      tdi_target_densities_dagger = conjugate_transpose target_densities\<rparr>"

text \<open>
  \<^verbatim>\<open>TargetDensityInfidelity.cost(self, controls, densities, sytem_eval_step)\<close>. The sums and
  quotients after the trace are entry by entry, then over all entries.
\<close>

definition TargetDensityInfidelity_cost ::
  "TargetDensityInfidelity \<Rightarrow> controls option \<Rightarrow> densities \<Rightarrow> int \<Rightarrow> error + real" where
  "TargetDensityInfidelity_cost self controls densities sytem_eval_step =
     (case np_matmul (tdi_target_densities_dagger self) densities of
        Inl e \<Rightarrow> Inl e
      | Inr products \<Rightarrow>
          (case index_all_0_0 products of
             Inl e \<Rightarrow> Inl e
           | Inr entries \<Rightarrow>
               (case np_trace (Array1 entries) of
                  Inl e \<Rightarrow> Inl e
                | Inr traces \<Rightarrow>
                    (let inner_products =
                           map (\<lambda>z. z / of_nat (tdi_hilbert_size self)) (np_elements traces);
                         fidelities = map (\<lambda>z. Re (z * cnj z)) inner_products;
                         fidelity_normalized =
                           sum_list fidelities / real (tdi_density_count self);
                         infidelity = 1 - fidelity_normalized
                     in Inr (infidelity * tdi_cost_multiplier self)))))"

text \<open>The object as a cost collaborator: its method has three parameters.\<close>

definition TargetDensityInfidelity_object :: "TargetDensityInfidelity \<Rightarrow> cost" where
  "TargetDensityInfidelity_object self =
     \<lparr>cost_params = [''controls'', ''densities'', ''sytem_eval_step''],
      cost_body = (\<lambda>controls densities system_step operation_policy.
                     TargetDensityInfidelity_cost self controls densities system_step)\<rparr>"

text \<open>
  The value of the cost in the spec's words, which is also the value the module's own
  tests expect: for targets \<open>T\<^sub>i\<close> and
  densities \<open>\<rho>\<^sub>i\<close> of size \<open>H\<close>, \<open>cost_multiplier \<sqdot> (1 - (1/D) \<Sum>\<^sub>i |tr(T\<^sub>i\<^sup>\<dagger> \<rho>\<^sub>i) / H|\<^sup>2)\<close>.
\<close>

definition spec_infidelity :: "TargetDensityInfidelity \<Rightarrow> densities \<Rightarrow> real" where
  "spec_infidelity self densities =
     tdi_cost_multiplier self *
       (1 - sum_list (map2 (\<lambda>t rho. (cmod (mat_trace (mat_mul t rho) / of_nat (tdi_hilbert_size self)))\<^sup>2)
                        (tdi_target_densities_dagger self) densities)
            / real (tdi_density_count self))"

section \<open>The result object along a run\<close>

text \<open>
  The update of lines 229 to 233 of \<^verbatim>\<open>_eldj_wrap\<close>, as a function of the result before and
  of what the gradient evaluation observed, and the traces in which every result is the
  update of the one before.
\<close>

definition update_best :: "result \<Rightarrow> evaluation \<Rightarrow> result" where
  "update_best prev e =
     (if float_less (ev_total_error e) (best_total_error prev)
      then \<lparr>best_controls = Some (ev_controls e),
            best_final_densities =
              (case ev_final_densities e of Some (Box v) \<Rightarrow> Some v | _ \<Rightarrow> None),
            best_iteration = Some (ev_iteration e),
            best_total_error = Finite (ev_total_error e)\<rparr>
      else prev)"

fun trace_from :: "result \<Rightarrow> evaluation list \<Rightarrow> bool" where
  "trace_from prev [] = True"
| "trace_from prev (e # es) = (ev_result e = update_best prev e \<and> trace_from (ev_result e) es)"

text \<open>The smaller of a stored best value and a total error.\<close>

fun pyfloat_min :: "pyfloat \<Rightarrow> real \<Rightarrow> pyfloat" where
  "pyfloat_min PosInf x = Finite x"
| "pyfloat_min (Finite y) x = Finite (min y x)"

section \<open>Concrete configurations\<close>

text \<open>
  A cost whose method takes the keyword \<^verbatim>\<open>operation_policy\<close> and returns the system step plus
  one, and a program state for two control steps over an evolution time of one, with one
  system step per control step, one density of size one, no Hamiltonian and no
  dissipation.
\<close>

definition step_index_cost :: cost where
  "step_index_cost =
     \<lparr>cost_params = [''controls'', ''densities'', ''system_step'', ''operation_policy''],
      cost_body = (\<lambda>controls densities system_step operation_policy.
                     Inr (real_of_int system_step + 1))\<rparr>"

definition example_pstate :: pstate where
  "example_pstate =
     \<lparr>ps_complex_controls = False, ps_controls_shape = (2, 1),
      ps_costs = [step_index_cost], ps_dt = 1 / 2,
      ps_final_control_step = 1, ps_final_system_step = 1,
      ps_hamiltonian = None, ps_initial_densities = [[[1]]],
      ps_interpolation_policy = LINEAR, ps_lindblad_data = None,
      ps_max_control_norms = [1], ps_operation_policy = CPU,
      ps_step_costs = [step_index_cost], ps_system_step_multiplier = 1\<rparr>"

text \<open>
  A Hamiltonian function that depends on the controls, \<open>H(c, t) = c\<^sub>0 \<sigma>\<^sub>x\<close> for the first
  control \<open>c\<^sub>0\<close> of the control vector, and a Lindblad specification with one operator,
  the lowering operator of a qubit, at the rate two.
\<close>

definition example_hamiltonian :: "vector option \<Rightarrow> real \<Rightarrow> matrix" where
  "example_hamiltonian c t =
     (case c of Some (z # _) \<Rightarrow> [[0, z], [z, 0]] | _ \<Rightarrow> [[0, 0], [0, 0]])"

definition example_lindblad_data :: "real \<Rightarrow> real list \<times> matrix list" where
  "example_lindblad_data t = ([2], [[[0, 1], [0, 0]]])"

text \<open>
  Modelled from the spec: two behaviours of the differentiation capability (spec section
  6: given the evaluation, return its value and the gradient with respect to the
  controls), to run the wrappers on concrete inputs. The engine boxes a value exactly
  when it was computed from the traced controls. \<open>traced_jacobian\<close> is the engine on an
  evaluation whose densities depend on the controls: the recorded final densities are a
  box, the gradient is given by \<open>gradient\<close>. \<open>untraced_jacobian\<close> is the engine on an
  evaluation whose densities do not depend on the controls (as without a Hamiltonian,
  where the step never reads them into the densities): the recorded final densities are
  the plain array the forward pass stored, the gradient is zero.
\<close>

definition box_final_densities :: "reporter \<Rightarrow> reporter" where
  "box_final_densities r =
     r\<lparr>rep_final_densities :=
         (case rep_final_densities r of
            None \<Rightarrow> None
          | Some (Ndarray v) \<Rightarrow> Some (Box v)
          | Some (Box v) \<Rightarrow> Some (Box v))\<rparr>"

definition traced_jacobian ::
  "(controls \<Rightarrow> controls) \<Rightarrow>
   (controls option \<Rightarrow> pstate \<Rightarrow> reporter \<Rightarrow> error + real \<times> reporter) \<Rightarrow>
   controls \<Rightarrow> pstate \<Rightarrow> reporter \<Rightarrow> error + (real \<times> controls) \<times> reporter" where
  "traced_jacobian gradient f controls pstate reporter =
     (case f (Some controls) pstate reporter of
        Inl e \<Rightarrow> Inl e
      | Inr (total_error, reporter') \<Rightarrow>
          Inr ((total_error, gradient controls), box_final_densities reporter'))"

definition untraced_jacobian ::
  "(controls option \<Rightarrow> pstate \<Rightarrow> reporter \<Rightarrow> error + real \<times> reporter) \<Rightarrow>
   controls \<Rightarrow> pstate \<Rightarrow> reporter \<Rightarrow> error + (real \<times> controls) \<times> reporter" where
  "untraced_jacobian f controls pstate reporter =
     (case f (Some controls) pstate reporter of
        Inl e \<Rightarrow> Inl e
      | Inr (total_error, reporter') \<Rightarrow>
          Inr ((total_error, map (map (\<lambda>_. 0)) controls), reporter'))"

text \<open>
  The collaborators of a run in which no control exceeds its bound (clipping changes
  nothing), with the traced and with the untraced behaviour of the engine.
\<close>

definition traced_env :: "(controls \<Rightarrow> controls) \<Rightarrow> collaborators" where
  "traced_env gradient =
     \<lparr>clip_control_norms = (\<lambda>max_control_norms controls. controls),
      ans_jacobian = traced_jacobian gradient\<rparr>"

definition untraced_env :: collaborators where
  "untraced_env =
     \<lparr>clip_control_norms = (\<lambda>max_control_norms controls. controls),
      ans_jacobian = untraced_jacobian\<rparr>"

text \<open>
  A terminal cost that returns the real part of the first control of the first control
  step, and the program state above with this cost alone, for real or for complex
  controls.
\<close>

definition first_control_cost :: cost where
  "first_control_cost =
     \<lparr>cost_params = [''controls'', ''densities'', ''system_step'', ''operation_policy''],
      cost_body = (\<lambda>controls densities system_step operation_policy.
                     Inr (case controls of Some ((z # _) # _) \<Rightarrow> Re z | _ \<Rightarrow> 0))\<rparr>"

definition control_pstate :: "bool \<Rightarrow> pstate" where
  "control_pstate complex_controls =
     example_pstate\<lparr>ps_complex_controls := complex_controls,
                    ps_costs := [first_control_cost], ps_step_costs := []\<rparr>"

text \<open>
  The second case of the tests of \<^verbatim>\<open>targetdensityinfidelity.py\<close>: one density \<open>|1\<rangle>\<langle>1|\<close> of
  size two, which is its own target; the test expects the cost 0.75. The program state
  evolves this density over one control step under no Hamiltonian and no dissipation,
  with the cost as its only cost.
\<close>

definition test_density :: densities where
  "test_density = [[[0, 0], [0, 1]]]"

definition test_cost :: TargetDensityInfidelity where
  "test_cost = TargetDensityInfidelity_init test_density 1"

definition test_pstate :: pstate where
  "test_pstate =
     \<lparr>ps_complex_controls = False, ps_controls_shape = (1, 1),
      ps_costs = [TargetDensityInfidelity_object test_cost], ps_dt = 1,
      ps_final_control_step = 0, ps_final_system_step = 0,
      ps_hamiltonian = None, ps_initial_densities = test_density,
      ps_interpolation_policy = LINEAR, ps_lindblad_data = None,
      ps_max_control_norms = [1], ps_operation_policy = CPU,
      ps_step_costs = [], ps_system_step_multiplier = 1\<rparr>"

section \<open>Properties of the integration step\<close>

subsection \<open>Arithmetic of zero arrays\<close>

lemma vec_add_zero: "vec_add x (map (\<lambda>_. 0) x) = x"
  unfolding vec_add_def by (induction x) auto

lemma mat_add_zero: "mat_add a (zeros_like a) = a"
  unfolding mat_add_def zeros_like_def by (induction a) (auto simp: vec_add_zero)

lemma zeros_like_idem: "zeros_like (zeros_like a) = zeros_like a"
  by (simp add: zeros_like_def)

lemma mat_add_zeros: "mat_add (zeros_like a) (zeros_like a) = zeros_like a"
  using mat_add_zero [of "zeros_like a"] by (simp only: zeros_like_idem)

lemma nd_add_zero: "nd_add x (map zeros_like x) = x"
  unfolding nd_add_def by (induction x) (auto simp: mat_add_zero)

lemma nd_add_zeros: "nd_add (map zeros_like x) (map zeros_like x) = map zeros_like x"
  unfolding nd_add_def by (induction x) (auto simp: mat_add_zeros)

lemma nd_scale_zero: "nd_scale r (map zeros_like x) = map zeros_like x"
  by (simp add: nd_scale_def zeros_like_def vec_scale_def)

lemma map_zeros_like_idem: "map zeros_like (map zeros_like x) = map zeros_like x"
  by (simp add: zeros_like_idem)

lemma lindbladian_absent: "lindbladian None None None rho = zeros_like rho"
  by (simp add: lindbladian_def mat_add_zeros)

lemma get_lindbladian_absent: "get_lindbladian x None None None p = map zeros_like x"
  by (simp add: get_lindbladian_def lindbladian_absent)

subsection \<open>Interpolation at the midpoint\<close>

lemma mid_ratio: "dt \<noteq> 0 \<Longrightarrow> ((t + 0.5 * dt) - t) / ((t + dt) - t) = (1 / 2 :: real)"
  by simp

lemma interp_half:
  "vec_add cl (vec_scale (1 / 2) (vec_sub cr cl)) = vec_scale (1 / 2) (vec_add cl cr)"
  unfolding vec_add_def vec_sub_def vec_scale_def
  by (induction cl cr rule: list_induct2') (simp_all add: field_simps)

lemma step_controls_third: 
  "step_controls s k controls pol t1 t2 t4 = Inr (c1, c2, c3, c4) \<Longrightarrow> c3 = c2"
  by (auto simp: step_controls_def Let_def split: option.splits sum.splits if_splits)

subsection \<open>The step on one qubit\<close>

text \<open>
  The array arithmetic and the Lindbladian on a batch of one matrix of size two. For the
  density \<open>|0\<rangle>\<langle>0|\<close>, the controls \<open>[[1], [3]]\<close>, the Hamiltonian \<open>c\<^sub>0 \<sigma>\<^sub>x\<close>, no
  dissipation, \<open>t = 0\<close> and \<open>dt = 1\<close>, the controls of the step are 1, 2, 2, 3 and the
  increments are \<open>k1 = [[0, i], [-i, 0]]\<close>, \<open>k2 = [[-2, 2i], [-2i, 2]]\<close>,
  \<open>k3 = [[-4, -2i], [2i, 4]]\<close> and \<open>k4 = [[12, -21i], [21i, -12]]\<close>, so that the step
  returns \<open>[[1, -10i/3], [10i/3, 0]]\<close>.
\<close>

lemma transpose_2x2: "transpose [[a, b], [c, d]] = [[a, c], [b, d]]"
  by (simp add: transpose.simps)

lemma mat_mul_2x2:
  "mat_mul [[a, b], [c, d]] [[e, f], [g, h]]
     = [[a * e + b * g, a * f + b * h], [c * e + d * g, c * f + d * h]]"
  by (simp add: mat_mul_def transpose_2x2)

lemma dagger_2x2: "dagger [[a, b], [c, d]] = [[cnj a, cnj c], [cnj b, cnj d]]"
  by (simp add: dagger_def transpose_2x2)

lemma lindbladian_hamiltonian_2x2:
  "lindbladian None (Some [[0, z], [z, 0]]) None [[a, b], [c, d]]
     = [[- \<i> * (z * c - b * z), - \<i> * (z * d - a * z)],
        [- \<i> * (z * a - d * z), - \<i> * (z * b - c * z)]]"
  by (simp add: lindbladian_def commutator_def mat_mul_2x2 mat_sub_def vec_sub_def
      mat_cscale_def mat_add_def vec_add_def zeros_like_def)

lemma lindbladian_2x2:
  "lindbladian (Some [g]) (Some [[0, z], [z, 0]]) (Some [[[0, 1], [0, 0]]]) [[a, b], [c, d]]
     = [[- \<i> * (z * c - b * z) + g * d, - \<i> * (z * d - a * z) - g * b / 2],
        [- \<i> * (z * a - d * z) - g * c / 2, - \<i> * (z * b - c * z) - g * d]]"
  by (simp add: lindbladian_def commutator_def dissipator_def mat_mul_2x2 dagger_2x2 mat_sub_def
      vec_sub_def mat_cscale_def mat_add_def vec_add_def zeros_like_def algebra_simps)

lemma scale_add_2x2:
  "nd_scale r [[[a, b], [c, d]]] = [[[r * a, r * b], [r * c, r * d]]]"
  "nd_add [[[a, b], [c, d]]] [[[e, f], [g, h]]] = [[[a + e, b + f], [c + g, d + h]]]"
  by (simp_all add: nd_scale_def nd_add_def vec_scale_def mat_add_def vec_add_def)

lemma example_step_controls:
  "step_controls False 0 (Some [[1], [3]]) LINEAR 0 (0 + 1 / 2) (0 + 1)
     = Inr (Some [1], Some [2], Some [2], Some [3])"
  by (simp add: step_controls_def py_index_def interpolate_linear_def vec_add_def
      vec_sub_def vec_scale_def Let_def)

lemma example_hamiltonian_value: "example_hamiltonian (Some [z]) t = [[0, z], [z, 0]]"
  by (simp add: example_hamiltonian_def)

lemma nd_add_entry:
  assumes "i < length x" "i < length y" "j < length (x ! i)" "j < length (y ! i)"
    "k < length (x ! i ! j)" "k < length (y ! i ! j)"
  shows "nd_add x y ! i ! j ! k = x ! i ! j ! k + y ! i ! j ! k"
  using assms by (simp add: nd_add_def mat_add_def vec_add_def)

lemma nd_scale_entry:
  assumes "i < length x" "j < length (x ! i)" "k < length (x ! i ! j)"
  shows "nd_scale r x ! i ! j ! k = complex_of_real r * x ! i ! j ! k"
  using assms by (simp add: nd_scale_def vec_scale_def)

text \<open>
  Claim C1. One integration step whose control vectors resolve to \<open>c1\<close>, \<open>c2\<close>, \<open>c3\<close>, \<open>c4\<close>
  returns \<open>\<rho> + (k1 + 2 k2 + 2 k3 + k4) / 6\<close>, where \<open>k1 = dt \<sqdot> L(\<rho>, g1, h1, l1)\<close>,
  \<open>k2 = dt \<sqdot> L(\<rho> + k1 / 2, g2, h2, l2)\<close>, \<open>k3 = dt \<sqdot> L(\<rho> + k2 / 2, g3, h3, l3)\<close> and
  \<open>k4 = dt \<sqdot> L(\<rho> + k3, g4, h4, l4)\<close>, the times are \<open>t1 = t\<close>, \<open>t2 = t3 = t + dt / 2\<close>,
  \<open>t4 = t + dt\<close>, the Hamiltonian is \<open>h\<^sub>i = H(c\<^sub>i, t\<^sub>i)\<close> when there is one, and the rates and
  operators \<open>(g\<^sub>i, l\<^sub>i)\<close> are the Lindblad specification's answer at \<open>t\<^sub>i\<close>, asked for each
  time on its own. The sum and the real multiples of batches in this formula are taken
  entry by entry.
\<close>

theorem rk4_step:
  assumes "step_controls control_sentinel control_step controls interpolation_policy
             t (t + dt / 2) (t + dt) = Inr (c1, c2, c3, c4)"
  shows "(let t1 = t; t2 = t + dt / 2; t3 = t + dt / 2; t4 = t + dt;
              h1 = map_option (\<lambda>hf. hf c1 t1) hamiltonian;
              h2 = map_option (\<lambda>hf. hf c2 t2) hamiltonian;
              h3 = map_option (\<lambda>hf. hf c3 t3) hamiltonian;
              h4 = map_option (\<lambda>hf. hf c4 t4) hamiltonian;
              g1 = map_option (\<lambda>ld. fst (ld t1)) lindblad_data;
              l1 = map_option (\<lambda>ld. snd (ld t1)) lindblad_data;
              g2 = map_option (\<lambda>ld. fst (ld t2)) lindblad_data;
              l2 = map_option (\<lambda>ld. snd (ld t2)) lindblad_data;
              g3 = map_option (\<lambda>ld. fst (ld t3)) lindblad_data;
              l3 = map_option (\<lambda>ld. snd (ld t3)) lindblad_data;
              g4 = map_option (\<lambda>ld. fst (ld t4)) lindblad_data;
              l4 = map_option (\<lambda>ld. snd (ld t4)) lindblad_data;
              k1 = nd_scale dt (get_lindbladian rho g1 h1 l1 p);
              k2 = nd_scale dt (get_lindbladian (nd_add rho (nd_scale (1 / 2) k1)) g2 h2 l2 p);
              k3 = nd_scale dt (get_lindbladian (nd_add rho (nd_scale (1 / 2) k2)) g3 h3 l3 p);
              k4 = nd_scale dt (get_lindbladian (nd_add rho k3) g4 h4 l4 p)
          in evolve_step_lindblad_discrete rho dt t control_sentinel control_step controls
               hamiltonian interpolation_policy lindblad_data p
             = Inr (nd_add rho (nd_scale (1 / 6)
                      (nd_add (nd_add (nd_add k1 (nd_scale 2 k2)) (nd_scale 2 k3)) k4))))
       \<and> (\<forall>x y i j k. i < length x \<and> i < length y \<and> j < length (x ! i) \<and> j < length (y ! i)
             \<and> k < length (x ! i ! j) \<and> k < length (y ! i ! j)
           \<longrightarrow> nd_add x y ! i ! j ! k = x ! i ! j ! k + y ! i ! j ! k)
       \<and> (\<forall>r x i j k. i < length x \<and> j < length (x ! i) \<and> k < length (x ! i ! j)
           \<longrightarrow> nd_scale r x ! i ! j ! k = complex_of_real r * x ! i ! j ! k)"
proof (intro conjI)
  have eq: "c3 = c2"
    using assms by (rule step_controls_third)
  show "(let t1 = t; t2 = t + dt / 2; t3 = t + dt / 2; t4 = t + dt;
              h1 = map_option (\<lambda>hf. hf c1 t1) hamiltonian;
              h2 = map_option (\<lambda>hf. hf c2 t2) hamiltonian;
              h3 = map_option (\<lambda>hf. hf c3 t3) hamiltonian;
              h4 = map_option (\<lambda>hf. hf c4 t4) hamiltonian;
              g1 = map_option (\<lambda>ld. fst (ld t1)) lindblad_data;
              l1 = map_option (\<lambda>ld. snd (ld t1)) lindblad_data;
              g2 = map_option (\<lambda>ld. fst (ld t2)) lindblad_data;
              l2 = map_option (\<lambda>ld. snd (ld t2)) lindblad_data;
              g3 = map_option (\<lambda>ld. fst (ld t3)) lindblad_data;
              l3 = map_option (\<lambda>ld. snd (ld t3)) lindblad_data;
              g4 = map_option (\<lambda>ld. fst (ld t4)) lindblad_data;
              l4 = map_option (\<lambda>ld. snd (ld t4)) lindblad_data;
              k1 = nd_scale dt (get_lindbladian rho g1 h1 l1 p);
              k2 = nd_scale dt (get_lindbladian (nd_add rho (nd_scale (1 / 2) k1)) g2 h2 l2 p);
              k3 = nd_scale dt (get_lindbladian (nd_add rho (nd_scale (1 / 2) k2)) g3 h3 l3 p);
              k4 = nd_scale dt (get_lindbladian (nd_add rho k3) g4 h4 l4 p)
          in evolve_step_lindblad_discrete rho dt t control_sentinel control_step controls
               hamiltonian interpolation_policy lindblad_data p
             = Inr (nd_add rho (nd_scale (1 / 6)
                      (nd_add (nd_add (nd_add k1 (nd_scale 2 k2)) (nd_scale 2 k3)) k4))))"
    unfolding evolve_step_lindblad_discrete_def
    by (cases hamiltonian; cases lindblad_data)
       (simp_all add: Let_def assms eq split: prod.splits)
  show "(\<forall>x y i j k. i < length x \<and> i < length y \<and> j < length (x ! i) \<and> j < length (y ! i)
                  \<and> k < length (x ! i ! j) \<and> k < length (y ! i ! j)
                \<longrightarrow> nd_add x y ! i ! j ! k = x ! i ! j ! k + y ! i ! j ! k)"
    by (simp add: nd_add_entry)
  show "(\<forall>r x i j k. i < length x \<and> j < length (x ! i) \<and> k < length (x ! i ! j)
                \<longrightarrow> nd_scale r x ! i ! j ! k = complex_of_real r * x ! i ! j ! k)"
    by (simp add: nd_scale_entry)
qed

theorem rk4_step_witness:
  "step_controls False 0 (Some [[1], [3]]) LINEAR 0 (0 + 1 / 2) (0 + 1)
     = Inr (Some [1], Some [2], Some [2], Some [3])
   \<and> evolve_step_lindblad_discrete [[[1, 0], [0, 0]]] 1 0 False 0 (Some [[1], [3]])
        (Some example_hamiltonian) LINEAR None CPU
       = Inr [[[1, Complex 0 (- (10 / 3))], [Complex 0 (10 / 3), 0]]]
   \<and> evolve_step_lindblad_discrete [[[1, 0], [0, 0]]] 1 0 False 0 (Some [[1], [3]])
        (Some example_hamiltonian) LINEAR (Some example_lindblad_data) CPU
       = Inr [[[37 / 12, Complex 0 (- (7 / 24))], [Complex 0 (7 / 24), - (25 / 12)]]]"
proof (intro conjI)
  note c = example_step_controls
  note h = example_hamiltonian_value
  have l: "example_lindblad_data t = ([2], [[[0, 1], [0, 0]]])" for t
    by (simp add: example_lindblad_data_def)
  show "step_controls False 0 (Some [[1], [3]]) LINEAR 0 (0 + 1 / 2) (0 + 1)
     = Inr (Some [1], Some [2], Some [2], Some [3])"
    by (rule c)
  show "evolve_step_lindblad_discrete [[[1, 0], [0, 0]]] 1 0 False 0 (Some [[1], [3]])
        (Some example_hamiltonian) LINEAR None CPU
       = Inr [[[1, Complex 0 (- (10 / 3))], [Complex 0 (10 / 3), 0]]]"
    using rk4_step [where hamiltonian = "Some example_hamiltonian"
          and lindblad_data = None and rho = "[[[1, 0], [0, 0]]]" and p = CPU, OF c]
    by (simp add: Let_def h get_lindbladian_def lindbladian_hamiltonian_2x2 scale_add_2x2
        complex_eq_iff)
  show "evolve_step_lindblad_discrete [[[1, 0], [0, 0]]] 1 0 False 0 (Some [[1], [3]])
        (Some example_hamiltonian) LINEAR (Some example_lindblad_data) CPU
       = Inr [[[37 / 12, Complex 0 (- (7 / 24))], [Complex 0 (7 / 24), - (25 / 12)]]]"
    using rk4_step [where hamiltonian = "Some example_hamiltonian"
          and lindblad_data = "Some example_lindblad_data" and rho = "[[[1, 0], [0, 0]]]"
          and p = CPU, OF c]
    by (simp add: Let_def h l get_lindbladian_def lindbladian_2x2 scale_add_2x2
        complex_eq_iff)
qed

text \<open>
  Claim C4. With a control array under the linear policy, \<open>c1\<close> is the left bracketing
  control, \<open>c4\<close> the right one, and \<open>c2 = c3\<close> is their linear interpolation
  \<open>c_L + ((t2 - t1) / (t4 - t1)) \<sqdot> (c_R - c_L)\<close>, which is the midpoint \<open>(c_L + c_R) / 2\<close>
  for a time step that is not zero. The driver passes the flag
  \<open>control_step = final_control_step\<close>: the pair is rows \<open>control_step - 1\<close> and
  \<open>control_step\<close> at the final control step, and rows \<open>control_step\<close> and
  \<open>control_step + 1\<close> otherwise.
\<close>

theorem linear_bracketing:
  assumes "dt \<noteq> 0"
    and "py_index cs (if control_step = final_control_step then control_step - 1
                      else control_step) = Inr c_L"
    and "py_index cs (if control_step = final_control_step then control_step
                      else control_step + 1) = Inr c_R"
  shows "step_controls (control_step = final_control_step) control_step (Some cs) LINEAR
           t (t + 0.5 * dt) (t + dt)
         = Inr (Some c_L, Some (interpolate_linear t (t + dt) (t + 0.5 * dt) c_L c_R),
                Some (interpolate_linear t (t + dt) (t + 0.5 * dt) c_L c_R), Some c_R)
       \<and> interpolate_linear t (t + dt) (t + 0.5 * dt) c_L c_R
         = vec_add c_L (vec_scale (((t + 0.5 * dt) - t) / ((t + dt) - t)) (vec_sub c_R c_L))
       \<and> interpolate_linear t (t + dt) (t + 0.5 * dt) c_L c_R
         = vec_scale (1 / 2) (vec_add c_L c_R)"
proof (intro conjI)
  show "step_controls (control_step = final_control_step) control_step (Some cs) LINEAR
           t (t + 0.5 * dt) (t + dt)
         = Inr (Some c_L, Some (interpolate_linear t (t + dt) (t + 0.5 * dt) c_L c_R),
                Some (interpolate_linear t (t + dt) (t + 0.5 * dt) c_L c_R), Some c_R)"
    using assms(2,3) by (cases "control_step = final_control_step") (simp_all add: step_controls_def Let_def)
  show "interpolate_linear t (t + dt) (t + 0.5 * dt) c_L c_R
         = vec_add c_L (vec_scale (((t + 0.5 * dt) - t) / ((t + dt) - t)) (vec_sub c_R c_L))"
    by (simp only: interpolate_linear_def)
  show "interpolate_linear t (t + dt) (t + 0.5 * dt) c_L c_R = vec_scale (1 / 2) (vec_add c_L c_R)"
    unfolding interpolate_linear_def mid_ratio [OF assms(1)] by (rule interp_half)
qed

theorem linear_bracketing_witness:
  "(1::real) \<noteq> 0
   \<and> py_index [[1], [3 :: complex]] 0 = Inr [1]
   \<and> py_index [[1], [3 :: complex]] 1 = Inr [3]
   \<and> step_controls False 0 (Some [[1], [3]]) LINEAR 0 (0 + 0.5 * 1) (0 + 1)
       = Inr (Some [1], Some [2], Some [2], Some [3])
   \<and> step_controls True 1 (Some [[1], [3]]) LINEAR 1 (1 + 0.5 * 1) (1 + 1)
       = Inr (Some [1], Some [2], Some [2], Some [3])"
proof -
  have l: "py_index [[1], [3 :: complex]] (if (0::int) = 1 then 0 - 1 else 0) = Inr [1]"
    by (simp add: py_index_def)
  have r: "py_index [[1], [3 :: complex]] (if (0::int) = 1 then 0 else 0 + 1) = Inr [3]"
    by (simp add: py_index_def)
  have l': "py_index [[1], [3 :: complex]] (if (1::int) = 1 then 1 - 1 else 1) = Inr [1]"
    by (simp add: py_index_def)
  have r': "py_index [[1], [3 :: complex]] (if (1::int) = 1 then 1 else 1 + 1) = Inr [3]"
    by (simp add: py_index_def)
  have d: "(1::real) \<noteq> 0"
    by simp
  show ?thesis
    using linear_bracketing [OF d l r, of 0] linear_bracketing [OF d l' r', of 1] l r
    by (simp add: vec_scale_def vec_add_def vec_sub_def)
qed

lemma step_identity:
  assumes "step_controls control_sentinel control_step controls interpolation_policy
             t (t + 0.5 * dt) (t + dt) = Inr c"
  shows "evolve_step_lindblad_discrete rho dt t control_sentinel control_step controls
           None interpolation_policy None p = Inr rho"
proof -
  obtain c1 c2 c3 c4 where c: "c = (c1, c2, c3, c4)" by (cases c) auto
  show ?thesis
    using assms unfolding evolve_step_lindblad_discrete_def c
    by (simp add: Let_def get_lindbladian_absent nd_scale_zero nd_add_zero nd_add_zeros
        map_zeros_like_idem)
qed

text \<open>
  Claim C7. With neither a Hamiltonian function nor a Lindblad specification the
  Lindbladian of every batch is the zero batch, each increment \<open>dt \<sqdot> L\<close> of the step
  vanishes, and a step whose control vectors resolve returns the batch it was given.
\<close>

theorem step_without_generators:
  assumes "step_controls control_sentinel control_step controls interpolation_policy
             t (t + 0.5 * dt) (t + dt) = Inr c"
  shows "get_lindbladian rho None None None p = map zeros_like rho
       \<and> nd_scale dt (get_lindbladian rho None None None p) = map zeros_like rho
       \<and> evolve_step_lindblad_discrete rho dt t control_sentinel control_step controls
           None interpolation_policy None p = Inr rho"
proof (intro conjI)
  show "get_lindbladian rho None None None p = map zeros_like rho"
    by (rule get_lindbladian_absent)
  show "nd_scale dt (get_lindbladian rho None None None p) = map zeros_like rho"
    by (simp only: get_lindbladian_absent nd_scale_zero)
  show "evolve_step_lindblad_discrete rho dt t control_sentinel control_step controls
           None interpolation_policy None p = Inr rho"
    using assms by (rule step_identity)
qed

theorem step_without_generators_witness:
  "step_controls False 0 None LINEAR 0 (0 + 0.5 * 2) (0 + 2) = Inr (None, None, None, None)
   \<and> get_lindbladian [[[1, 2], [3, 4]]] None None None CPU = [[[0, 0], [0, 0]]]
   \<and> evolve_step_lindblad_discrete [[[1, 2], [3, 4]]] 2 0 False 0 None None LINEAR None CPU
       = Inr [[[1, 2], [3, 4]]]"
proof -
  have c: "step_controls False 0 None LINEAR 0 (0 + 0.5 * 2) (0 + 2) = Inr (None, None, None, None)"
    by (simp add: step_controls_def)
  show ?thesis
    using step_without_generators [OF c, of "[[[1, 2], [3, 4]]]" CPU] c
    by (simp add: zeros_like_def)
qed

section \<open>Properties of the evolution driver\<close>








lemma example_step:
  "system_step_evolve (Some [[1], [3]]) example_pstate s d =
     evolve_step_lindblad_discrete d (1 / 2) (real_of_int s * (1 / 2)) (s = 1) s
       (Some [[1], [3]]) None LINEAR None CPU"
  by (simp add: system_step_evolve_def example_pstate_def Let_def)

lemma example_step0: "system_step_evolve (Some [[1], [3]]) example_pstate 0 d = Inr d"
proof -
  have c: "step_controls False 0 (Some [[1], [3]]) LINEAR 0 (0 + 0.5 * (1 / 2)) (0 + 1 / 2)
             = Inr (Some [1], Some (interpolate_linear 0 (0 + 1 / 2) (0 + 0.5 * (1 / 2)) [1] [3]),
                    Some (interpolate_linear 0 (0 + 1 / 2) (0 + 0.5 * (1 / 2)) [1] [3]), Some [3])"
    by (simp add: step_controls_def py_index_def Let_def)
  show ?thesis
    using step_identity [OF c, of d CPU] by (simp add: example_step)
qed

lemma example_step1: "system_step_evolve (Some [[1], [3]]) example_pstate 1 d = Inr d"
proof -
  have c: "step_controls True 1 (Some [[1], [3]]) LINEAR (1 / 2) (1 / 2 + 0.5 * (1 / 2)) (1 / 2 + 1 / 2)
             = Inr (Some [1], Some (interpolate_linear (1 / 2) (1 / 2 + 1 / 2) (1 / 2 + 0.5 * (1 / 2)) [1] [3]),
                    Some (interpolate_linear (1 / 2) (1 / 2 + 1 / 2) (1 / 2 + 0.5 * (1 / 2)) [1] [3]), Some [3])"
    by (simp add: step_controls_def py_index_def Let_def)
  show ?thesis
    using step_identity [OF c, of d CPU] by (simp add: example_step)
qed

lemma example_call:
  "call_cost step_index_cost c d s p = Inr (real_of_int s + 1)"
  by (simp add: call_cost_def step_index_cost_def)

lemma example_run:
  "evaluate_run (Some [[1], [3]]) example_pstate r =
     Inr \<lparr>ls_densities = [[[1]]], ls_total_error = 3,
          ls_reporter = r\<lparr>rep_final_densities := Some (Ndarray [[[1]]]),
                          rep_total_error := Some 3\<rparr>,
          ls_invocations =
            [\<lparr>inv_list = STEP_COSTS, inv_index = 0, inv_step = 0,
              inv_densities = [[[1]]], inv_error = 1\<rparr>,
             \<lparr>inv_list = COSTS, inv_index = 0, inv_step = 1,
              inv_densities = [[[1]]], inv_error = 2\<rparr>]\<rparr>"
proof -
  have u: "[0..ps_final_system_step example_pstate] = [0, 1]"
    by (simp add: example_pstate_def upto.simps)
  have f: "ps_final_system_step example_pstate = 1" "ps_costs example_pstate = [step_index_cost]"
    "ps_step_costs example_pstate = [step_index_cost]" "ps_initial_densities example_pstate = [[[1]]]"
    by (simp_all add: example_pstate_def)
  show ?thesis
    unfolding evaluate_run_def u
    by (simp add: system_step_body_def example_step0 example_step1 example_call f
        initial_loop_state_def Let_def)
qed


lemma step_controls_nonlinear:
  assumes "interpolation_policy \<noteq> LINEAR"
    and "(if control_sentinel then 1 else 2) \<le> length cs"
  shows "step_controls control_sentinel 0 (Some cs) interpolation_policy t1 t2 t4 = Inl ValueError"
  using assms by (cases control_sentinel) (auto simp: step_controls_def py_index_def)

text \<open>
  Claim C9. With a control array whose bracketing rows exist and a policy other than
  the linear one, in a run with at least one system step, the integration step of system
  step zero raises the configuration error, and with it the loop, the evaluation and
  \<^verbatim>\<open>evolve_lindblad_discrete\<close>: nothing but the error is returned. The policy is
  looked at only where controls are interpolated: the same step without a control array
  returns.
\<close>

theorem nonlinear_policy_raises:
  assumes "ps_interpolation_policy pstate \<noteq> LINEAR"
    and "0 \<le> ps_final_system_step pstate"
    and "ps_system_step_multiplier pstate \<noteq> 0"
    and "(if ps_final_control_step pstate = 0 then 1 else 2) \<le> length cs"
  shows "system_step_evolve (Some cs) pstate 0 (ps_initial_densities pstate) = Inl ValueError
       \<and> evaluate_run (Some cs) pstate reporter = Inl ValueError
       \<and> evaluate_lindblad_discrete (Some cs) pstate reporter = Inl ValueError
       \<and> evolve_lindblad_discrete (Some cs) pstate = Inl ValueError
       \<and> (\<exists>d. system_step_evolve None pstate 0 (ps_initial_densities pstate) = Inr d)"
proof -
  have sc: "step_controls (ps_final_control_step pstate = 0) 0 (Some cs)
              (ps_interpolation_policy pstate) t1 t2 t4 = Inl ValueError" for t1 t2 t4
    using assms(1,4) by (rule step_controls_nonlinear)
  have a: "system_step_evolve (Some cs) pstate 0 (ps_initial_densities pstate) = Inl ValueError"
    using assms(3) by (simp add: system_step_evolve_def Let_def evolve_step_lindblad_discrete_def sc)
  have u: "[0..ps_final_system_step pstate] = 0 # [0 + 1..ps_final_system_step pstate]"
    using assms(2) by (rule upto_rec1)
  have b: "evaluate_run (Some cs) pstate reporter = Inl ValueError"
    unfolding evaluate_run_def u
    by (simp add: system_step_body_def a initial_loop_state_def)
  have c: "evaluate_lindblad_discrete (Some cs) pstate reporter = Inl ValueError" for reporter
    using b by (simp add: evaluate_lindblad_discrete_def evaluate_run_def u system_step_body_def a initial_loop_state_def)
  have d: "evolve_lindblad_discrete (Some cs) pstate = Inl ValueError"
    by (simp add: evolve_lindblad_discrete_def c)
  have e: "\<exists>d. system_step_evolve None pstate 0 (ps_initial_densities pstate) = Inr d"
    using assms(3)
    by (simp add: system_step_evolve_def Let_def evolve_step_lindblad_discrete_def step_controls_def
        split: prod.splits)
  from a b c d e show ?thesis by blast
qed

theorem nonlinear_policy_raises_witness:
  "ps_interpolation_policy (example_pstate\<lparr>ps_interpolation_policy := OTHER_POLICY ''CUBIC''\<rparr>) \<noteq> LINEAR
   \<and> evolve_lindblad_discrete (Some [[1], [3]])
        (example_pstate\<lparr>ps_interpolation_policy := OTHER_POLICY ''CUBIC''\<rparr>) = Inl ValueError
   \<and> evolve_lindblad_discrete (Some [[1], [3]]) example_pstate
       = Inr (EvolveLindbladResult\<lparr>rep_final_densities := Some (Ndarray [[[1]]]),
                                   rep_total_error := Some 3\<rparr>)"
proof -
  let ?p = "example_pstate\<lparr>ps_interpolation_policy := OTHER_POLICY ''CUBIC''\<rparr>"
  have h1: "ps_interpolation_policy ?p \<noteq> LINEAR" by simp
  have h2: "0 \<le> ps_final_system_step ?p" by (simp add: example_pstate_def)
  have h3: "ps_system_step_multiplier ?p \<noteq> 0" by (simp add: example_pstate_def)
  have h4: "(if ps_final_control_step ?p = 0 then 1 else 2) \<le> length [[1], [3 :: complex]]"
    by (simp add: example_pstate_def)
  show ?thesis
    using nonlinear_policy_raises [OF h1 h2 h3 h4]
    by (simp add: evolve_lindblad_discrete_def evaluate_lindblad_discrete_def example_run)
qed

section \<open>The invocation of \<^verbatim>\<open>TargetDensityInfidelity\<close>\<close>

lemma call_target_density_infidelity:
  "call_cost (TargetDensityInfidelity_object self) controls densities system_step operation_policy
     = Inl TypeError"
  by (simp add: call_cost_def TargetDensityInfidelity_object_def)

lemma target_density_infidelity_cost_raises:
  "\<exists>e. TargetDensityInfidelity_cost self controls densities sytem_eval_step = Inl e"
  by (simp add: TargetDensityInfidelity_cost_def split: sum.splits)

lemma test_step: "system_step_evolve None test_pstate 0 d = Inr d"
proof -
  have c: "step_controls True 0 None LINEAR 0 (0 + 0.5 * 1) (0 + 1) = Inr (None, None, None, None)"
    by (simp add: step_controls_def)
  show ?thesis
    using step_identity [OF c, of d CPU]
    by (simp add: system_step_evolve_def test_pstate_def Let_def)
qed

lemma test_transpose: "transpose [[0, 0], [0, 1 :: complex]] = [[0, 0], [0, 1]]"
  by (simp add: transpose.simps)

lemma test_dagger: "tdi_target_densities_dagger test_cost = [[[0, 0], [0, 1]]]"
  by (simp add: test_cost_def TargetDensityInfidelity_init_def conjugate_transpose_def
      test_density_def dagger_def test_transpose)

lemma test_product: "mat_mul [[0, 0], [0, 1]] [[0, 0], [0, 1 :: complex]] = [[0, 0], [0, 1]]"
  by (simp add: mat_mul_def test_transpose)

text \<open>
  Claim C3 says that the driver's invocation of a cost such as
  \<^verbatim>\<open>TargetDensityInfidelity\<close> at the final system step succeeds and returns
  \<open>cost_multiplier \<sqdot> (1 - (1/D) \<Sum>\<^sub>i |tr(T\<^sub>i\<^sup>\<dagger> \<rho>\<^sub>i) / H|\<^sup>2)\<close>. On the second case of the
  cost's own tests, evolved over one step under no Hamiltonian and no dissipation, the
  code does otherwise: the driver's call passes the keyword \<^verbatim>\<open>operation_policy\<close>, which the
  method does not take, so the evaluation ends in \<^verbatim>\<open>TypeError\<close>; the method called as the
  tests call it takes entry \<open>(0, 0)\<close> of every product before the trace and ends in
  \<^verbatim>\<open>ValueError\<close>; the value of the claim's formula there is \<open>3/4\<close>, the one the test
  expects.
\<close>

theorem target_density_infidelity_fails:
  "evolve_lindblad_discrete None test_pstate = Inl TypeError
   \<and> TargetDensityInfidelity_cost test_cost None test_density 0 = Inl ValueError
   \<and> spec_infidelity test_cost test_density = 3 / 4"
proof (intro conjI)
  have u: "[0..ps_final_system_step test_pstate] = [0]"
    by (simp add: test_pstate_def)
  have f: "ps_final_system_step test_pstate = 0"
    "ps_costs test_pstate = [TargetDensityInfidelity_object test_cost]"
    by (simp_all add: test_pstate_def)
  show "evolve_lindblad_discrete None test_pstate = Inl TypeError"
    unfolding evolve_lindblad_discrete_def evaluate_lindblad_discrete_def evaluate_run_def u
    by (simp add: system_step_body_def test_step call_target_density_infidelity f)
  show "TargetDensityInfidelity_cost test_cost None test_density 0 = Inl ValueError"
    by (simp add: TargetDensityInfidelity_cost_def test_dagger np_matmul_def test_density_def
        test_product py_index_def)
  have g: "tdi_hilbert_size test_cost = 2" "tdi_density_count test_cost = 1"
    "tdi_cost_multiplier test_cost = 1"
    by (simp_all add: test_cost_def TargetDensityInfidelity_init_def test_density_def)
  have t: "mat_trace [[0, 0], [0, 1]] = 1"
    by (simp add: mat_trace_def)
  show "spec_infidelity test_cost test_density = 3 / 4"
    unfolding spec_infidelity_def test_dagger g
    by (simp add: test_density_def test_product t power2_eq_square)
qed

section \<open>Properties of the optimisation wrappers\<close>

lemma eldj_wrap_plain:
  assumes "eldj_evaluate env controls pstate reporter = Inr (cs, total_error, grads, traced)"
    and "rep_final_densities traced = Some (Ndarray v)"
  shows "eldj_wrap env controls pstate reporter result = Inl UnboundLocalError"
  using assms by (simp add: eldj_wrap_def Let_def)

lemma eldj_wrap_returns:
  assumes "eldj_wrap env controls pstate reporter result = Inr (g, reporter', result')"
  obtains cs total_error grads traced v where
    "eldj_evaluate env controls pstate reporter = Inr (cs, total_error, grads, traced)"
    "rep_final_densities traced = Some (Box v)"
    "result' = (if float_less total_error (best_total_error result)
                then \<lparr>best_controls = Some cs, best_final_densities = Some v,
                      best_iteration = Some (rep_iteration traced),
                      best_total_error = Finite total_error\<rparr>
                else result)"
    "reporter' = traced\<lparr>rep_iteration := rep_iteration traced + 1\<rparr>"
    "g = strip_controls (ps_complex_controls pstate)
           (if ps_complex_controls pstate then conjugate grads else grads)"
proof -
  from assms obtain cs total_error grads traced where
    ev: "eldj_evaluate env controls pstate reporter = Inr (cs, total_error, grads, traced)"
    by (auto simp: eldj_wrap_def split: sum.splits)
  from assms ev obtain a where a: "rep_final_densities traced = Some a"
    by (auto simp: eldj_wrap_def Let_def split: option.splits)
  from assms ev a obtain v where v: "a = Box v"
    by (cases a) (auto simp: eldj_wrap_def Let_def split: if_splits)
  have r: "result' = (if float_less total_error (best_total_error result)
                then \<lparr>best_controls = Some cs, best_final_densities = Some v,
                      best_iteration = Some (rep_iteration traced),
                      best_total_error = Finite total_error\<rparr>
                else result)"
    using assms ev a v by (cases result) (auto simp: eldj_wrap_def Let_def split: if_splits)
  have rp: "reporter' = traced\<lparr>rep_iteration := rep_iteration traced + 1\<rparr>"
    using assms ev a v by (auto simp: eldj_wrap_def Let_def split: if_splits)
  have gg: "g = strip_controls (ps_complex_controls pstate)
           (if ps_complex_controls pstate then conjugate grads else grads)"
    using assms ev a v by (auto simp: eldj_wrap_def Let_def split: if_splits)
  from ev a v r rp gg that show thesis by blast
qed

lemma eld_wrap_result:
  "eld_wrap env controls pstate reporter result = Inr (t, reporter', result') \<Longrightarrow> result' = result"
  by (auto simp: eld_wrap_def Let_def split: sum.splits)

lemma optimizer_run_trace:
  "optimizer_run env pstate requests reporter result = Inr (evs, reporter', result') \<Longrightarrow>
   trace_from result evs \<and> result' = (if evs = [] then result else ev_result (last evs))"
proof (induction env pstate requests reporter result arbitrary: evs reporter' result'
       rule: optimizer_run.induct)
  case (1 env pstate reporter result)
  then show ?case by simp
next
  case (2 env pstate x rest reporter result)
  from "2.prems" obtain t r1 res1 where
    w: "eld_wrap env x pstate reporter result = Inr (t, r1, res1)" and
    run: "optimizer_run env pstate rest r1 res1 = Inr (evs, reporter', result')"
    by (auto split: sum.splits)
  have "res1 = result" using w by (rule eld_wrap_result)
  with "2.IH" [OF w refl refl run] show ?case by simp
next
  case (3 env pstate x rest reporter result)
  from "3.prems" obtain g r1 res1 where
    w: "eldj_wrap env x pstate reporter result = Inr (g, r1, res1)"
    by (auto split: sum.splits)
  from w obtain cs total_error grads traced v where
    ev: "eldj_evaluate env x pstate reporter = Inr (cs, total_error, grads, traced)" and
    bx: "rep_final_densities traced = Some (Box v)" and
    res: "res1 = (if float_less total_error (best_total_error result)
                then \<lparr>best_controls = Some cs, best_final_densities = Some v,
                      best_iteration = Some (rep_iteration traced),
                      best_total_error = Finite total_error\<rparr>
                else result)"
    by (rule eldj_wrap_returns)
  from "3.prems" w ev obtain evs1 where
    run: "optimizer_run env pstate rest r1 res1 = Inr (evs1, reporter', result')" and
    evs: "evs = \<lparr>ev_controls = cs, ev_total_error = total_error,
                  ev_final_densities = rep_final_densities traced,
                  ev_iteration = rep_iteration traced, ev_result = res1\<rparr> # evs1"
    by (auto split: sum.splits)
  have ih: "trace_from res1 evs1 \<and> result' = (if evs1 = [] then res1 else ev_result (last evs1))"
    using "3.IH" [OF w refl refl ev refl refl refl run] .
  have up: "res1 = update_best result \<lparr>ev_controls = cs, ev_total_error = total_error,
                  ev_final_densities = rep_final_densities traced,
                  ev_iteration = rep_iteration traced, ev_result = res1\<rparr>"
    using res bx by (simp add: update_best_def)
  show ?case
    unfolding evs using ih up by simp
qed

lemma update_best_total_error:
  "best_total_error (update_best prev e) = pyfloat_min (best_total_error prev) (ev_total_error e)"
  by (cases "best_total_error prev") (auto simp: update_best_def)

lemma update_best_le:
  "pyfloat_le (best_total_error (update_best prev e)) (best_total_error prev)"
  by (cases "best_total_error prev") (auto simp: update_best_def)

lemma pyfloat_min_min: "pyfloat_min (pyfloat_min b x) y = pyfloat_min b (min x y)"
  by (cases b) (auto simp: min.assoc)

lemma trace_from_nth:
  "trace_from prev evs \<Longrightarrow> i < length evs \<Longrightarrow>
   ev_result (evs ! i) = update_best (if i = 0 then prev else ev_result (evs ! (i - 1))) (evs ! i)"
proof (induction evs arbitrary: prev i)
  case Nil
  then show ?case by simp
next
  case (Cons e es)
  show ?case
  proof (cases i)
    case 0
    with Cons.prems show ?thesis by simp
  next
    case (Suc j)
    have rest: "trace_from (ev_result e) es"
      using Cons.prems(1) [unfolded trace_from.simps] by blast
    from Suc Cons.prems(2) have j: "j < length es" by simp
    from Cons.IH [OF rest j] Suc show ?thesis
      by (cases j) simp_all
  qed
qed

lemma trace_from_best:
  "trace_from prev evs \<Longrightarrow> i < length evs \<Longrightarrow>
   best_total_error (ev_result (evs ! i))
     = pyfloat_min (best_total_error prev) (Min (set (map ev_total_error (take (Suc i) evs))))"
proof (induction evs arbitrary: prev i)
  case Nil
  then show ?case by simp
next
  case (Cons e es)
  note both = Cons.prems(1) [unfolded trace_from.simps]
  from both have here: "ev_result e = update_best prev e" by blast
  from both have rest: "trace_from (ev_result e) es" by blast
  show ?case
  proof (cases i)
    case 0
    then show ?thesis
      using here by (simp add: update_best_total_error)
  next
    case (Suc j)
    with Cons.prems have j: "j < length es" by simp
    have ne: "set (map ev_total_error (take (Suc j) es)) \<noteq> {}"
      using j by (cases es) auto
    have "best_total_error (ev_result (es ! j))
            = pyfloat_min (best_total_error (ev_result e))
                (Min (set (map ev_total_error (take (Suc j) es))))"
      using Cons.IH [OF rest j] .
    also have "\<dots> = pyfloat_min (best_total_error prev)
                (min (ev_total_error e) (Min (set (map ev_total_error (take (Suc j) es)))))"
      by (simp add: here update_best_total_error pyfloat_min_min)
    also have "min (ev_total_error e) (Min (set (map ev_total_error (take (Suc j) es))))
                 = Min (set (map ev_total_error (take (Suc i) (e # es))))"
    proof -
      have tk: "take (Suc i) (e # es) = e # take (Suc j) es"
        using Suc by simp
      have "Min (set (map ev_total_error (take (Suc i) (e # es))))
              = Min (insert (ev_total_error e) (set (map ev_total_error (take (Suc j) es))))"
        unfolding tk by simp
      also have "\<dots> = min (ev_total_error e) (Min (set (map ev_total_error (take (Suc j) es))))"
        using ne by (intro Min_insert) simp_all
      finally show ?thesis by simp
    qed
    finally show ?thesis
      using Suc by simp
  qed
qed

text \<open>
  Claim C5. In a run of the optimiser that returns, started from a fresh result (best
  total error plus infinity): after every gradient evaluation the result is the one
  before it with all four fields overwritten by what this evaluation observed (its
  controls, its final densities, its iteration, its total error) when its total error is
  strictly smaller than the stored best total error, and the one before it unchanged
  otherwise; the stored best total error never increases, and after each gradient
  evaluation it is the least total error of the gradient evaluations so far.
\<close>

theorem best_result_tracking:
  assumes "optimizer_run env pstate requests reporter GrapeLindbladResult
             = Inr (evs, reporter', result')"
  shows "(\<forall>i<length evs.
            ev_result (evs ! i)
              = update_best (if i = 0 then GrapeLindbladResult else ev_result (evs ! (i - 1)))
                  (evs ! i)
            \<and> pyfloat_le (best_total_error (ev_result (evs ! i)))
                (best_total_error (if i = 0 then GrapeLindbladResult
                                   else ev_result (evs ! (i - 1))))
            \<and> best_total_error (ev_result (evs ! i))
                = Finite (Min (set (map ev_total_error (take (Suc i) evs)))))
       \<and> result' = (if evs = [] then GrapeLindbladResult else ev_result (last evs))"
proof -
  from optimizer_run_trace [OF assms] have
    tr: "trace_from GrapeLindbladResult evs" and
    last: "result' = (if evs = [] then GrapeLindbladResult else ev_result (last evs))"
    by simp_all
  have "ev_result (evs ! i)
              = update_best (if i = 0 then GrapeLindbladResult else ev_result (evs ! (i - 1)))
                  (evs ! i)
            \<and> pyfloat_le (best_total_error (ev_result (evs ! i)))
                (best_total_error (if i = 0 then GrapeLindbladResult
                                   else ev_result (evs ! (i - 1))))
            \<and> best_total_error (ev_result (evs ! i))
                = Finite (Min (set (map ev_total_error (take (Suc i) evs))))"
    if i: "i < length evs" for i
  proof -
    have a: "ev_result (evs ! i)
              = update_best (if i = 0 then GrapeLindbladResult else ev_result (evs ! (i - 1)))
                  (evs ! i)"
      using tr i by (rule trace_from_nth)
    have b: "pyfloat_le (best_total_error (ev_result (evs ! i)))
                (best_total_error (if i = 0 then GrapeLindbladResult
                                   else ev_result (evs ! (i - 1))))"
      by (subst a) (rule update_best_le)
    have c: "best_total_error (ev_result (evs ! i))
                = Finite (Min (set (map ev_total_error (take (Suc i) evs))))"
      using trace_from_best [OF tr i] by (simp add: GrapeLindbladResult_def)
    from a b c show ?thesis by blast
  qed
  with last show ?thesis by blast
qed

lemma control_step:
  "system_step_evolve (Some [[a], [b]]) (control_pstate cc) s d = Inr d" if "s = 0 \<or> s = 1"
proof -
  have c: "\<exists>c. step_controls (s = 1) s (Some [[a], [b]]) LINEAR t (t + 0.5 * (1 / 2)) (t + 1 / 2)
             = Inr c" for t
    using that by (auto simp: step_controls_def py_index_def Let_def)
  have "evolve_step_lindblad_discrete d (1 / 2) t (s = 1) s (Some [[a], [b]]) None LINEAR None CPU
          = Inr d" for t
    using c [of t] step_identity [of "s = 1" s "Some [[a], [b]]" LINEAR t "1 / 2" _ d CPU]
    by blast
  then show ?thesis
    by (simp add: system_step_evolve_def control_pstate_def example_pstate_def Let_def)
qed

lemma control_evaluate:
  "evaluate_lindblad_discrete (Some [[a], [b]]) (control_pstate cc) r
     = Inr (Re a, r\<lparr>rep_final_densities := Some (Ndarray [[[1]]]), rep_total_error := Some (Re a)\<rparr>)"
proof -
  have u: "[0..ps_final_system_step (control_pstate cc)] = [0, 1]"
    by (simp add: control_pstate_def example_pstate_def upto.simps)
  have f: "ps_final_system_step (control_pstate cc) = 1"
    "ps_costs (control_pstate cc) = [first_control_cost]"
    "ps_step_costs (control_pstate cc) = []" "ps_initial_densities (control_pstate cc) = [[[1]]]"
    by (simp_all add: control_pstate_def example_pstate_def)
  have call: "call_cost first_control_cost (Some [[a], [b]]) d s p = Inr (Re a)" for d s p
    by (simp add: call_cost_def first_control_cost_def)
  show ?thesis
    unfolding evaluate_lindblad_discrete_def evaluate_run_def u
    by (simp add: system_step_body_def control_step call f initial_loop_state_def Let_def)
qed

lemma control_fields:
  "ps_complex_controls (control_pstate cc) = cc"
  "ps_controls_shape (control_pstate cc) = (2, Suc 0)"
  by (simp_all add: control_pstate_def example_pstate_def)

lemma control_slap:
  "slap_controls False [x, y] (2, Suc 0) = Inr [[complex_of_real x], [complex_of_real y]]"
  by (simp add: slap_controls_def reshape_def upt_rec)

lemma control_slap_complex:
  "slap_controls True [x1, x2, y1, y2] (2, Suc 0) = Inr [[Complex x1 y1], [Complex x2 y2]]"
  by (simp add: slap_controls_def reshape_def upt_rec Let_def)

lemma control_eldj_evaluate:
  "eldj_evaluate (traced_env gradient) [x, y] (control_pstate False) r
     = Inr ([[complex_of_real x], [complex_of_real y]], x,
            gradient [[complex_of_real x], [complex_of_real y]],
            r\<lparr>rep_final_densities := Some (Box [[[1]]]), rep_total_error := Some x\<rparr>)"
  by (simp add: eldj_evaluate_def control_fields control_slap traced_env_def traced_jacobian_def
      control_evaluate box_final_densities_def Let_def)

lemma control_eldj_evaluate_complex:
  "eldj_evaluate (traced_env gradient) [x1, x2, y1, y2] (control_pstate True) r
     = Inr ([[Complex x1 y1], [Complex x2 y2]], x1,
            gradient [[Complex x1 y1], [Complex x2 y2]],
            r\<lparr>rep_final_densities := Some (Box [[[1]]]), rep_total_error := Some x1\<rparr>)"
  by (simp add: eldj_evaluate_def control_fields control_slap_complex traced_env_def
      traced_jacobian_def control_evaluate box_final_densities_def Let_def)

lemma control_eldj_wrap:
  "eldj_wrap (traced_env gradient) [x, y] (control_pstate False) r res
     = Inr (strip_controls False (gradient [[complex_of_real x], [complex_of_real y]]),
            r\<lparr>rep_final_densities := Some (Box [[[1]]]), rep_total_error := Some x,
              rep_iteration := rep_iteration r + 1\<rparr>,
            if float_less x (best_total_error res)
            then \<lparr>best_controls = Some [[complex_of_real x], [complex_of_real y]],
                  best_final_densities = Some [[[1]]],
                  best_iteration = Some (rep_iteration r),
                  best_total_error = Finite x\<rparr>
            else res)"
  by (cases res) (simp add: eldj_wrap_def control_eldj_evaluate Let_def control_fields)

lemma control_eld_wrap:
  "eld_wrap (traced_env gradient) [x, y] (control_pstate False) r res
     = Inr (x, r\<lparr>rep_final_densities := Some (Ndarray [[[1]]]), rep_total_error := Some x\<rparr>, res)"
  by (simp add: eld_wrap_def control_fields control_slap traced_env_def control_evaluate Let_def)

lemma control_run:
  "\<exists>evs r. optimizer_run (traced_env (\<lambda>c. c)) (control_pstate False)
     [GRADIENT [5, 3], OBJECTIVE [1, 1], GRADIENT [2, 3], GRADIENT [4, 3]] Dummy GrapeLindbladResult
     = Inr (evs, r, \<lparr>best_controls = Some [[2], [3]], best_final_densities = Some [[[1]]],
                     best_iteration = Some 1, best_total_error = Finite 2\<rparr>)
     \<and> map ev_total_error evs = [5, 2, 4]"
  by (simp add: control_eldj_wrap control_eld_wrap control_eldj_evaluate Dummy_def
      GrapeLindbladResult_def)

theorem best_result_tracking_witness:
  "\<exists>evs r. optimizer_run (traced_env (\<lambda>c. c)) (control_pstate False)
     [GRADIENT [5, 3], OBJECTIVE [1, 1], GRADIENT [2, 3], GRADIENT [4, 3]] Dummy GrapeLindbladResult
     = Inr (evs, r, \<lparr>best_controls = Some [[2], [3]], best_final_densities = Some [[[1]]],
                     best_iteration = Some 1, best_total_error = Finite 2\<rparr>)
     \<and> map ev_total_error evs = [5, 2, 4]
     \<and> map (best_total_error \<circ> ev_result) evs = [Finite 5, Finite 2, Finite 2]"
proof -
  from control_run obtain evs r where
    both: "optimizer_run (traced_env (\<lambda>c. c)) (control_pstate False)
     [GRADIENT [5, 3], OBJECTIVE [1, 1], GRADIENT [2, 3], GRADIENT [4, 3]] Dummy GrapeLindbladResult
     = Inr (evs, r, \<lparr>best_controls = Some [[2], [3]], best_final_densities = Some [[[1]]],
                     best_iteration = Some 1, best_total_error = Finite 2\<rparr>)
     \<and> map ev_total_error evs = [5, 2, 4]"
    by (elim exE)
  from both have
    run: "optimizer_run (traced_env (\<lambda>c. c)) (control_pstate False)
     [GRADIENT [5, 3], OBJECTIVE [1, 1], GRADIENT [2, 3], GRADIENT [4, 3]] Dummy GrapeLindbladResult
     = Inr (evs, r, \<lparr>best_controls = Some [[2], [3]], best_final_densities = Some [[[1]]],
                     best_iteration = Some 1, best_total_error = Finite 2\<rparr>)"
    by (rule conjunct1)
  from both have errs: "map ev_total_error evs = [5, 2, 4]"
    by (rule conjunct2)
  from errs obtain e0 e1 e2 where evs: "evs = [e0, e1, e2]"
    and te: "ev_total_error e0 = 5" "ev_total_error e1 = 2" "ev_total_error e2 = 4"
    by auto
  note t = best_result_tracking [OF run]
  have len: "length evs = 3" using evs by simp
  have bi: "best_total_error (ev_result (evs ! i))
              = Finite (Min (set (map ev_total_error (take (Suc i) evs))))"
    if "i < length evs" for i
    using t that by blast
  have b0: "best_total_error (ev_result e0) = Finite 5"
    using bi [of 0] evs te by simp
  have b1: "best_total_error (ev_result e1) = Finite 2"
    using bi [of 1] evs te by simp
  have b2: "best_total_error (ev_result e2) = Finite 2"
    using bi [of 2] evs te by (simp add: numeral_2_eq_2)
  have fin: "map (best_total_error \<circ> ev_result) evs = [Finite 5, Finite 2, Finite 2]"
    using b0 b1 b2 evs by simp
  show ?thesis
    by (rule exI [of _ evs], rule exI [of _ r]) (intro conjI run errs fin)
qed

text \<open>
  Claim C8. With complex controls, the gradient a returning gradient evaluation hands
  to the optimiser is the stripped entrywise complex conjugate of the raw jacobian; an
  entry \<open>du/dx - i du/dy\<close> of the raw jacobian becomes \<open>du/dx + i du/dy\<close>.
\<close>

theorem complex_gradient_conjugated:
  assumes "ps_complex_controls pstate"
    and "eldj_evaluate env controls pstate reporter = Inr (cs, total_error, grads, traced)"
    and "eldj_wrap env controls pstate reporter result = Inr (g, reporter', result')"
  shows "g = strip_controls True (conjugate grads)
       \<and> conjugate grads = map (map cnj) grads
       \<and> (\<forall>d. grads = map (map (\<lambda>(ux, uy). Complex ux (- uy))) d \<longrightarrow>
               conjugate grads = map (map (\<lambda>(ux, uy). Complex ux uy)) d)"
proof -
  from assms(3) obtain cs' total_error' grads' traced' where
    ev: "eldj_evaluate env controls pstate reporter = Inr (cs', total_error', grads', traced')" and
    g: "g = strip_controls (ps_complex_controls pstate)
           (if ps_complex_controls pstate then conjugate grads' else grads')"
    by (rule eldj_wrap_returns)
  from ev assms(2) have "grads' = grads" by simp
  with g assms(1) have a: "g = strip_controls True (conjugate grads)" by simp
  have b: "conjugate grads = map (map cnj) grads"
    by (simp add: conjugate_def)
  have c: "conjugate (map (map (\<lambda>(ux, uy). Complex ux (- uy))) d)
             = map (map (\<lambda>(ux, uy). Complex ux uy)) d" for d
    by (simp add: conjugate_def complex_cnj split_def)
  from a b c show ?thesis by blast
qed

theorem complex_gradient_conjugated_witness:
  "ps_complex_controls (control_pstate True)
   \<and> eldj_wrap (traced_env (\<lambda>c. [[Complex 1 (- 2)], [Complex 3 (- 4)]])) [5, 6, 7, 8]
       (control_pstate True) Dummy GrapeLindbladResult
     = Inr ([1, 3, 2, 4],
            Dummy\<lparr>rep_final_densities := Some (Box [[[1]]]), rep_total_error := Some 5,
                  rep_iteration := 1\<rparr>,
            \<lparr>best_controls = Some [[Complex 5 7], [Complex 6 8]],
             best_final_densities = Some [[[1]]], best_iteration = Some 0,
             best_total_error = Finite 5\<rparr>)"
proof -
  let ?env = "traced_env (\<lambda>c. [[Complex 1 (- 2)], [Complex 3 (- 4)]])"
  have cc: "ps_complex_controls (control_pstate True)"
    by (simp add: control_fields)
  have ev: "eldj_evaluate ?env [5, 6, 7, 8] (control_pstate True) Dummy
     = Inr ([[Complex 5 7], [Complex 6 8]], 5, [[Complex 1 (- 2)], [Complex 3 (- 4)]],
            Dummy\<lparr>rep_final_densities := Some (Box [[[1]]]), rep_total_error := Some 5\<rparr>)"
    by (simp add: control_eldj_evaluate_complex)
  have w: "\<exists>g. eldj_wrap ?env [5, 6, 7, 8] (control_pstate True) Dummy GrapeLindbladResult
     = Inr (g,
            Dummy\<lparr>rep_final_densities := Some (Box [[[1]]]), rep_total_error := Some 5,
                  rep_iteration := 1\<rparr>,
            \<lparr>best_controls = Some [[Complex 5 7], [Complex 6 8]],
             best_final_densities = Some [[[1]]], best_iteration = Some 0,
             best_total_error = Finite 5\<rparr>)"
    by (simp add: eldj_wrap_def ev Let_def cc GrapeLindbladResult_def)
       (simp add: Dummy_def)
  then obtain g where
    w': "eldj_wrap ?env [5, 6, 7, 8] (control_pstate True) Dummy GrapeLindbladResult
     = Inr (g,
            Dummy\<lparr>rep_final_densities := Some (Box [[[1]]]), rep_total_error := Some 5,
                  rep_iteration := 1\<rparr>,
            \<lparr>best_controls = Some [[Complex 5 7], [Complex 6 8]],
             best_final_densities = Some [[[1]]], best_iteration = Some 0,
             best_total_error = Finite 5\<rparr>)"
    by blast
  from complex_gradient_conjugated [OF cc ev w']
  have "g = strip_controls True (conjugate [[Complex 1 (- 2)], [Complex 3 (- 4)]])"
    by blast
  then have "g = [1, 3, 2, 4]"
    by (simp add: strip_controls_def conjugate_def)
  with w' cc show ?thesis by simp
qed

lemma example_slap:
  "slap_controls (ps_complex_controls example_pstate) [1, 3] (ps_controls_shape example_pstate)
     = Inr [[1], [3]]"
  by (simp add: slap_controls_def reshape_def example_pstate_def upt_rec)

text \<open>
  Claim C10 says that in every gradient evaluation the final densities used for the
  best result and for logging are defined before use, also when the recorded final
  densities are not a box. With no Hamiltonian the densities do not depend on the
  controls and the forward pass records a plain array: the wrapper then never assigns
  \<^verbatim>\<open>final_densities\<close>, raises \<^verbatim>\<open>UnboundLocalError\<close> where it first reads the variable, and the
  optimisation ends with that error.
\<close>

theorem final_densities_unbound:
  "eldj_evaluate untraced_env [1, 3] example_pstate Dummy
     = Inr ([[1], [3]], 3, [[0], [0]],
            Dummy\<lparr>rep_final_densities := Some (Ndarray [[[1]]]), rep_total_error := Some 3\<rparr>)
   \<and> eldj_wrap untraced_env [1, 3] example_pstate Dummy GrapeLindbladResult
       = Inl UnboundLocalError
   \<and> grape_lindblad_discrete untraced_env example_pstate [GRADIENT [1, 3]]
       = Inl UnboundLocalError"
proof -
  have ev: "eldj_evaluate untraced_env [1, 3] example_pstate Dummy
     = Inr ([[1], [3]], 3, [[0], [0]],
            Dummy\<lparr>rep_final_densities := Some (Ndarray [[[1]]]), rep_total_error := Some 3\<rparr>)"
    by (simp add: eldj_evaluate_def example_slap untraced_env_def untraced_jacobian_def
        evaluate_lindblad_discrete_def example_run Let_def)
  have w: "eldj_wrap untraced_env [1, 3] example_pstate Dummy GrapeLindbladResult
       = Inl UnboundLocalError"
    by (rule eldj_wrap_plain [OF ev]) simp
  have "grape_lindblad_discrete untraced_env example_pstate [GRADIENT [1, 3]]
       = Inl UnboundLocalError"
    by (simp add: grape_lindblad_discrete_def w)
  with ev w show ?thesis by blast
qed

section \<open>Properties of the control representation adapter\<close>

lemma length_concat_rectangular:
  "length x = n \<Longrightarrow> \<forall>row\<in>set x. length row = m \<Longrightarrow> length (concat x) = n * m"
  by (induction x arbitrary: n) auto

lemma rows_of_concat:
  "\<forall>row\<in>set x. length row = m \<Longrightarrow>
   map (\<lambda>i. take m (drop (i * m) (concat x))) [0..<length x] = x"
proof (induction x)
  case Nil
  then show ?case by simp
next
  case (Cons r rs)
  have r: "length r = m" and rs: "\<forall>row\<in>set rs. length row = m"
    using Cons.prems by simp_all
  have upt: "[0..<length (r # rs)] = 0 # map Suc [0..<length rs]"
    by (simp add: upt_conv_Cons map_Suc_upt del: upt_Suc)
  have "map (\<lambda>i. take m (drop (i * m) (concat (r # rs)))) [0..<length (r # rs)]
          = r # map (\<lambda>i. take m (drop (i * m) (concat rs))) [0..<length rs]"
    unfolding upt using r by (simp add: o_def)
  with Cons.IH [OF rs] show ?case by simp
qed

lemma reshape_concat:
  assumes "length x = n" and "\<forall>row\<in>set x. length row = m"
  shows "reshape (concat x) (n, m) = Inr x"
  using assms length_concat_rectangular [OF assms] rows_of_concat [OF assms(2)]
  by (auto simp: reshape_def)

lemma complex_of_parts: "map2 Complex (map Re c) (map Im c) = c"
  by (induction c) simp_all

lemma complex_of_real_parts: "\<forall>z\<in>set c. Im z = 0 \<Longrightarrow> map complex_of_real (map Re c) = c"
  by (induction c) (simp_all add: complex_eq_iff)

text \<open>
  Claim C6. For every structured control array with \<open>n\<close> rows of length \<open>m\<close>, real when
  the flag for complex controls is not set, slapping the stripped array to the shape
  \<open>(n, m)\<close> gives the array back; the stripped vector has \<open>n m\<close> entries for real
  controls and twice as many for complex ones.
\<close>

theorem slap_strip_roundtrip:
  assumes "length x = n" and "\<forall>row\<in>set x. length row = m"
    and "complex_controls \<or> (\<forall>row\<in>set x. \<forall>z\<in>set row. Im z = 0)"
  shows "slap_controls complex_controls (strip_controls complex_controls x) (n, m) = Inr x
       \<and> length (strip_controls complex_controls x)
           = (if complex_controls then 2 * (n * m) else n * m)"
proof (cases complex_controls)
  case True
  have "slap_controls True (strip_controls True x) (n, m) = Inr x"
    using reshape_concat [OF assms(1,2)]
    by (simp add: slap_controls_def strip_controls_def Let_def complex_of_parts)
  moreover have "length (strip_controls True x) = 2 * (n * m)"
    using length_concat_rectangular [OF assms(1,2)] by (simp add: strip_controls_def Let_def)
  ultimately show ?thesis using True by simp
next
  case False
  with assms(3) have real: "\<forall>z\<in>set (concat x). Im z = 0" by auto
  have "slap_controls False (strip_controls False x) (n, m)
          = reshape (map complex_of_real (map Re (concat x))) (n, m)"
    by (simp add: slap_controls_def strip_controls_def Let_def del: map_map)
  also have "\<dots> = reshape (concat x) (n, m)"
    by (simp only: complex_of_real_parts [OF real])
  also have "\<dots> = Inr x"
    by (rule reshape_concat [OF assms(1,2)])
  finally have "slap_controls False (strip_controls False x) (n, m) = Inr x" .
  moreover have "length (strip_controls False x) = n * m"
    using length_concat_rectangular [OF assms(1,2)] by (simp add: strip_controls_def Let_def)
  ultimately show ?thesis using False by simp
qed

theorem slap_strip_roundtrip_witness:
  "strip_controls True [[Complex 1 2], [Complex 3 4]] = [1, 3, 2, 4]
   \<and> slap_controls True [1, 3, 2, 4] (2, 1) = Inr [[Complex 1 2], [Complex 3 4]]
   \<and> strip_controls False [[5, 6], [7, 8]] = [5, 6, 7, 8]
   \<and> slap_controls False [5, 6, 7, 8] (2, 2) = Inr [[5, 6], [7, 8]]"
proof -
  have c: "length [[Complex 1 2], [Complex 3 4]] = 2"
    "\<forall>row\<in>set [[Complex 1 2], [Complex 3 4]]. length row = 1"
    "True \<or> (\<forall>row\<in>set [[Complex 1 2], [Complex 3 4]]. \<forall>z\<in>set row. Im z = 0)"
    by simp_all
  have r: "length [[5, 6], [7, 8 :: complex]] = 2"
    "\<forall>row\<in>set [[5, 6], [7, 8 :: complex]]. length row = 2"
    "False \<or> (\<forall>row\<in>set [[5, 6], [7, 8 :: complex]]. \<forall>z\<in>set row. Im z = 0)"
    by simp_all
  have s1: "strip_controls True [[Complex 1 2], [Complex 3 4]] = [1, 3, 2, 4]"
    by (simp add: strip_controls_def)
  have s2: "strip_controls False [[5, 6], [7, 8]] = [5, 6, 7, 8]"
    by (simp add: strip_controls_def)
  show ?thesis
    using slap_strip_roundtrip [OF c] slap_strip_roundtrip [OF r] s1 s2 by simp
qed

end
